theory Spec2Isabelle
  imports Complex_Main "HOL-Library.AList" "HOL-Library.Multiset"
begin

section \<open>Python values and strings\<close>

text \<open>
  The program handles JSON and YAML data as Python values. A Python \<open>str\<close> is a
  sequence of code points; the model uses \<open>string\<close> with one \<open>char\<close> per code
  point below 256 (Latin-1), which holds every character the source compares against
  (\<open>CHR 0xED\<close> is the accented i of the Spanish word for yes, \<open>CHR 0xF1\<close> the n with
  tilde). A dictionary is an association list in insertion order; looking a key up is
  \<open>map_of\<close>, assigning to a key is \<open>AList.update\<close>, which replaces the value of a
  key that is present in place and appends a new key at the end, as a Python dict does.
\<close>

datatype pyfloat = FFinite rat | FInf bool | FNaN

datatype pyval =
    VNone
  | VBool bool
  | VInt int
  | VFloat pyfloat
  | VStr string
  | VList "pyval list"
  | VDict "(string \<times> pyval) list"

type_synonym pydict = "(string \<times> pyval) list"

definition lower_char :: "char \<Rightarrow> char" where
  \<comment> \<open>\<open>str.lower\<close> on one code point below 256: A-Z and the accented capitals
      0xC0-0xDE (without the multiplication sign 0xD7) move up by 32.\<close>
  "lower_char c =
     (let n = (of_char c :: nat)
      in if (65 \<le> n \<and> n \<le> 90) \<or> (192 \<le> n \<and> n \<le> 222 \<and> n \<noteq> 215)
         then char_of (n + 32) else c)"

definition py_lower :: "string \<Rightarrow> string" where
  "py_lower s = map lower_char s"

definition is_space :: "char \<Rightarrow> bool" where
  \<comment> \<open>\<open>str.isspace\<close> below 256: tab to carriage return, the separators 0x1C-0x1F,
      space, next line 0x85 and no-break space 0xA0.\<close>
  "is_space c =
     (let n = (of_char c :: nat)
      in (9 \<le> n \<and> n \<le> 13) \<or> (28 \<le> n \<and> n \<le> 32) \<or> n = 133 \<or> n = 160)"

definition py_strip :: "string \<Rightarrow> string" where
  "py_strip s = rev (dropWhile is_space (rev (dropWhile is_space s)))"

definition is_digit :: "char \<Rightarrow> bool" where
  \<comment> \<open>the regular expression class \<open>\d\<close> below 256: the ten ASCII digits.\<close>
  "is_digit c = (let n = (of_char c :: nat) in 48 \<le> n \<and> n \<le> 57)"

definition re_search_digits :: "string \<Rightarrow> string option" where
  \<comment> \<open>\<open>re.search(r"\d+", value)\<close>: the leftmost, longest run of digits, if any.\<close>
  "re_search_digits s =
     (let t = dropWhile (\<lambda>c. \<not> is_digit c) s
      in if t = [] then None else Some (takeWhile is_digit t))"

definition digit_val :: "char \<Rightarrow> int" where
  "digit_val c = int (of_char c) - 48"

definition decimal_val :: "string \<Rightarrow> int" where
  "decimal_val ds = foldl (\<lambda>acc c. 10 * acc + digit_val c) 0 ds"


definition startswith :: "string \<Rightarrow> string \<Rightarrow> bool" where
  "startswith s p = (take (length p) s = p)"

fun contains :: "string \<Rightarrow> string \<Rightarrow> bool" where
  \<comment> \<open>\<open>sub in s\<close> on strings.\<close>
  "contains sub [] = (sub = [])"
| "contains sub (c # cs) = (take (length sub) (c # cs) = sub \<or> contains sub cs)"

fun split_on :: "char \<Rightarrow> string \<Rightarrow> string list" where
  \<comment> \<open>\<open>s.split(c)\<close> for a one-character separator: the empty string gives one empty piece.\<close>
  "split_on c [] = [[]]"
| "split_on c (x # xs) =
     (if x = c then [] # split_on c xs
      else (case split_on c xs of [] \<Rightarrow> [[x]] | l # ls \<Rightarrow> (x # l) # ls))"

fun join :: "string \<Rightarrow> string list \<Rightarrow> string" where
  \<comment> \<open>\<open>sep.join(parts)\<close>.\<close>
  "join sep [] = []"
| "join sep [p] = p"
| "join sep (p # q # ps) = p @ sep @ join sep (q # ps)"

function str_nat :: "nat \<Rightarrow> string" where
  "str_nat n =
     (if n < 10 then [char_of (48 + n)]
      else str_nat (n div 10) @ [char_of (48 + n mod 10)])"
  by pat_completeness auto
termination
  by (relation "measure id") auto

declare str_nat.simps [simp del]

definition str_int :: "int \<Rightarrow> string" where
  "str_int i = (if i < 0 then ''-'' @ str_nat (nat (- i)) else str_nat (nat i))"

subsection \<open>Annotations of the validation model\<close>

text \<open>
  The type annotations that \<open>_get_pydantic_field\<close> builds (\<open>str\<close>, \<open>EmailStr\<close>,
  \<open>int\<close>, \<open>float\<close>, \<open>bool\<close>, \<open>Literal[...]\<close>, \<open>List[...]\<close>, a nested model
  given by its fields, \<open>dict\<close>, \<open>Any\<close>, \<open>Optional[...]\<close>), and the \<open>Field(...)\<close>
  settings of one field: the bounds \<open>ge\<close> and \<open>le\<close>, and the default, where
  \<open>None\<close> stands for a field without default (a required one).
\<close>

datatype pytype =
    TStr | TEmailStr | TInt | TFloat | TBool
  | TLiteral "pyval list"
  | TList pytype
  | TModel "(string \<times> pytype) list"
  | TDict | TAny
  | TOptional pytype

record field_info =
  fi_ge :: "pyval option"
  fi_le :: "pyval option"
  fi_default :: "pyval option"

type_synonym field_def = "pytype \<times> field_info"

subsection \<open>Behaviour of the interpreter and of the libraries\<close>

text \<open>
  What the program takes from outside the repository is a parameter of the model:
  \<^item> \<open>int_max_str_digits\<close>: the interpreter's limit on the length of a digit string
    that \<open>int\<close> converts (\<open>sys.get_int_max_str_digits()\<close>, 0 for no limit); beyond it
    \<open>int\<close> raises \<open>ValueError\<close>;
  \<^item> \<open>float_of_str\<close>: the constructor \<open>float\<close> on a string, \<open>None\<close> where it raises
    \<open>ValueError\<close>;
  \<^item> \<open>py_repr\<close>: \<open>str\<close> of a float, a list or a dict;
  \<^item> \<open>json_loads\<close>, \<open>yaml_safe_load\<close>: the parsers, \<open>Inl\<close> with the text of the
    \<open>JSONDecodeError\<close> or \<open>YAMLError\<close> they raise;
  \<^item> \<open>field_check\<close>: the validation pydantic performs on one value for an annotation
    and its \<open>Field\<close> settings, under the configuration of \<open>create_pydantic_model\<close>:
    the validated value, or the errors, each with its location below the field and its
    message;
  \<^item> \<open>create_model_error\<close>: the text of the exception \<open>create_model\<close> raises for
    field definitions it refuses, \<open>None\<close> when it builds the model;
  \<^item> \<open>jsonschema_validate\<close>: \<open>jsonschema.validate\<close>, \<open>None\<close> when the instance
    conforms, else the path and message of the \<open>ValidationError\<close>;
  \<^item> \<open>empty_array_raises\<close>: whether numpy refuses the truth value of an empty array
    (it does from version 2.2; before, the value is false).
\<close>

record pylib =
  int_max_str_digits :: nat
  float_of_str :: "string \<Rightarrow> pyfloat option"
  py_repr :: "pyval \<Rightarrow> string"
  json_loads :: "string \<Rightarrow> string + pyval"
  yaml_safe_load :: "string \<Rightarrow> string + pyval"
  field_check :: "pytype \<Rightarrow> field_info \<Rightarrow> pyval \<Rightarrow> (string list \<times> string) list + pyval"
  create_model_error :: "(string \<times> field_def) list \<Rightarrow> string option"
  jsonschema_validate :: "pyval \<Rightarrow> pyval \<Rightarrow> (string \<times> string) option"
  empty_array_raises :: bool

definition py_int :: "pylib \<Rightarrow> string \<Rightarrow> int option" where
  \<comment> \<open>\<open>int(ds)\<close> on a non-empty run of digits; \<open>None\<close> is the \<open>ValueError\<close>.\<close>
  "py_int lib ds =
     (if 0 < int_max_str_digits lib \<and> int_max_str_digits lib < length ds then None
      else Some (decimal_val ds))"

fun py_str :: "pylib \<Rightarrow> pyval \<Rightarrow> string" where
  \<comment> \<open>\<open>str(v)\<close>, as an f-string renders a value.\<close>
  "py_str lib (VStr s) = s"
| "py_str lib (VInt i) = str_int i"
| "py_str lib (VBool b) = (if b then ''True'' else ''False'')"
| "py_str lib VNone = ''None''"
| "py_str lib v = py_repr lib v"

subsection \<open>Exceptions\<close>

datatype pyexn =
    ValueError string
  | TypeError string
  | KeyError string
  | PyException string

fun exn_str :: "pyexn \<Rightarrow> string" where
  \<comment> \<open>\<open>str(e)\<close>; a \<open>KeyError\<close> shows its key in quotes.\<close>
  "exn_str (ValueError m) = m"
| "exn_str (TypeError m) = m"
| "exn_str (KeyError k) = [CHR 0x27] @ k @ [CHR 0x27]"
| "exn_str (PyException m) = m"

section \<open>The schema\<close>

subsection \<open>Loading a schema\<close>

text \<open>
  \<open>load_yaml_schema\<close> works on what \<open>yaml.safe_load\<close> returns. Mapping keys are
  strings. Every \<open>raise\<close> of the source is an \<open>Inl\<close> with its message.
\<close>

definition quoted :: "string \<Rightarrow> string" where
  "quoted s = [CHR 0x27] @ s @ [CHR 0x27]"

definition valid_types :: "string list" where
  "valid_types =
     [''string'', ''integer'', ''float'', ''boolean'', ''categorical'',
      ''list[string]'', ''list[integer]'', ''list[object]'', ''object'']"

fun is_number :: "pyval \<Rightarrow> bool" where
  \<comment> \<open>\<open>isinstance(x, (int, float))\<close>; a \<open>bool\<close> is an \<open>int\<close>.\<close>
  "is_number (VInt i) = True"
| "is_number (VFloat f) = True"
| "is_number (VBool b) = True"
| "is_number v = False"

fun is_bool :: "pyval \<Rightarrow> bool" where
  "is_bool (VBool b) = True"
| "is_bool v = False"

fun is_list :: "pyval \<Rightarrow> bool" where
  "is_list (VList xs) = True"
| "is_list v = False"

fun is_dict :: "pyval \<Rightarrow> bool" where
  "is_dict (VDict d) = True"
| "is_dict v = False"

fun py_num :: "pyval \<Rightarrow> rat option" where
  "py_num (VBool b) = Some (if b then 1 else 0)"
| "py_num (VInt i) = Some (of_int i)"
| "py_num (VFloat (FFinite r)) = Some r"
| "py_num v = None"

definition py_eq :: "pyval \<Rightarrow> pyval \<Rightarrow> bool" where
  \<comment> \<open>\<open>==\<close> on hashable values: numbers compare by value across \<open>bool\<close>, \<open>int\<close> and
      \<open>float\<close>; a NaN equals nothing.\<close>
  "py_eq a b =
     (case (py_num a, py_num b) of
        (Some x, Some y) \<Rightarrow> x = y
      | (None, None) \<Rightarrow> a = b \<and> a \<noteq> VFloat FNaN
      | _ \<Rightarrow> False)"

fun type_name :: "pyval \<Rightarrow> string" where
  "type_name (VList xs) = ''list''"
| "type_name (VDict d) = ''dict''"
| "type_name v = ''object''"

definition validate_variable ::
  "pylib \<Rightarrow> pyval \<Rightarrow> nat \<Rightarrow> pyval list \<Rightarrow> pyexn + pyval list" where
  \<comment> \<open>\<open>_validate_variable(var, index, seen_names)\<close>: the set \<open>seen_names\<close> after the
      call, or the exception raised. The checks run in the order of the source.\<close>
  "validate_variable lib v index seen_names =
     (case v of
        VDict d \<Rightarrow>
          (case map_of d ''name'' of
             None \<Rightarrow>
               Inl (ValueError (''Variable '' @ str_nat index @ '' debe tener un campo ''
                                @ quoted ''name''))
           | Some nm \<Rightarrow>
               (case map_of d ''type'' of
                  None \<Rightarrow>
                    Inl (ValueError (''Variable '' @ str_nat index @ '' ('' @ py_str lib nm
                                     @ '') debe tener un campo '' @ quoted ''type''))
                | Some var_type \<Rightarrow>
                    if is_list nm \<or> is_dict nm then
                      Inl (TypeError (''unhashable type: '' @ quoted (type_name nm)))
                    else if list_ex (\<lambda>x. py_eq x nm) seen_names then
                      Inl (ValueError (''Nombre de variable duplicado: '' @ py_str lib nm))
                    else if var_type \<notin> set (map VStr valid_types) then
                      Inl (ValueError (''Tipo inv'' @ [CHR 0xE1] @ ''lido para variable ''
                             @ quoted (py_str lib nm) @ '': '' @ py_str lib var_type
                             @ ''. Tipos v'' @ [CHR 0xE1] @ ''lidos: '' @ join '', '' valid_types))
                    else if var_type = VStr ''categorical'' \<and> map_of d ''allowed_values'' = None then
                      Inl (ValueError (''Variable categorical '' @ quoted (py_str lib nm)
                             @ '' debe tener '' @ quoted ''allowed_values''))
                    else if var_type = VStr ''categorical''
                            \<and> \<not> is_list (the (map_of d ''allowed_values'')) then
                      Inl (ValueError (quoted ''allowed_values'' @ '' de '' @ quoted (py_str lib nm)
                             @ '' debe ser una lista''))
                    else if var_type = VStr ''integer'' \<and> map_of d ''min'' \<noteq> None
                            \<and> \<not> is_number (the (map_of d ''min'')) then
                      Inl (ValueError (quoted ''min'' @ '' de '' @ quoted (py_str lib nm)
                             @ '' debe ser un n'' @ [CHR 0xFA] @ ''mero''))
                    else if var_type = VStr ''integer'' \<and> map_of d ''max'' \<noteq> None
                            \<and> \<not> is_number (the (map_of d ''max'')) then
                      Inl (ValueError (quoted ''max'' @ '' de '' @ quoted (py_str lib nm)
                             @ '' debe ser un n'' @ [CHR 0xFA] @ ''mero''))
                    else if var_type = VStr ''list[object]'' \<and> map_of d ''properties'' = None then
                      Inl (ValueError (''Variable list[object] '' @ quoted (py_str lib nm)
                             @ '' debe tener '' @ quoted ''properties''))
                    else if var_type = VStr ''list[object]''
                            \<and> \<not> is_dict (the (map_of d ''properties'')) then
                      Inl (ValueError (quoted ''properties'' @ '' de '' @ quoted (py_str lib nm)
                             @ '' debe ser un diccionario''))
                    else if map_of d ''required'' \<noteq> None
                            \<and> \<not> is_bool (the (map_of d ''required'')) then
                      Inl (ValueError (quoted ''required'' @ '' de '' @ quoted (py_str lib nm)
                             @ '' debe ser booleano''))
                    else Inr (nm # seen_names)))
      | _ \<Rightarrow> Inl (ValueError (''Variable '' @ str_nat index @ '' debe ser un diccionario'')))"

fun validate_variables ::
  "pylib \<Rightarrow> pyval list \<Rightarrow> nat \<Rightarrow> pyval list \<Rightarrow> pyexn + pyval list" where
  \<comment> \<open>the loop \<open>for i, var in enumerate(schema["variables"])\<close>, from index \<open>i\<close> on.\<close>
  "validate_variables lib [] i seen_names = Inr seen_names"
| "validate_variables lib (v # vs) i seen_names =
     (case validate_variable lib v i seen_names of
        Inl e \<Rightarrow> Inl e
      | Inr seen' \<Rightarrow> validate_variables lib vs (Suc i) seen')"

definition check_schema :: "pylib \<Rightarrow> pyval \<Rightarrow> pyexn + pyval" where
  \<comment> \<open>\<open>load_yaml_schema\<close> after the YAML is parsed: the schema itself, when every check
      passes.\<close>
  "check_schema lib schema =
     (case schema of
        VDict d \<Rightarrow>
          if map_of d ''version'' = None then
            Inl (ValueError (''El esquema debe incluir un campo '' @ quoted ''version''))
          else
            (case map_of d ''variables'' of
               None \<Rightarrow>
                 Inl (ValueError (''El esquema debe incluir un campo '' @ quoted ''variables''))
             | Some (VList vs) \<Rightarrow>
                 (case validate_variables lib vs 0 [] of
                    Inl e \<Rightarrow> Inl e
                  | Inr seen \<Rightarrow> Inr schema)
             | Some other \<Rightarrow>
                 Inl (ValueError (''El campo '' @ quoted ''variables'' @ '' debe ser una lista'')))
      | _ \<Rightarrow> Inl (ValueError ''El esquema debe ser un diccionario''))"

definition load_yaml_schema :: "pylib \<Rightarrow> string \<Rightarrow> pyexn + pyval" where
  "load_yaml_schema lib yaml_content =
     (case yaml_safe_load lib yaml_content of
        Inl m \<Rightarrow> Inl (ValueError (''Error parseando YAML: '' @ m))
      | Inr schema \<Rightarrow> check_schema lib schema)"

subsection \<open>A loaded schema as records\<close>

text \<open>
  One entry of \<open>schema["variables"]\<close> of a loaded schema, with the keys the rest of the
  program reads. The name is a string (the program's own annotations say so, and a name
  of another type is refused when the validation model is built). \<open>required\<close> is
  \<open>var.get("required", False)\<close>; an optional key is \<open>None\<close> when absent.
\<close>

record var =
  name :: string
  vtype :: string
  required :: bool
  vmin :: "pyval option"
  vmax :: "pyval option"
  allowed_values :: "pyval list option"
  properties :: "pydict option"
  format :: "pyval option"
  description :: "pyval option"

definition var_of :: "pyval \<Rightarrow> var option" where
  "var_of v =
     (case v of
        VDict d \<Rightarrow>
          (case (map_of d ''name'', map_of d ''type'') of
             (Some (VStr nm), Some (VStr t)) \<Rightarrow>
               Some \<lparr>name = nm, vtype = t,
                     required = (map_of d ''required'' = Some (VBool True)),
                     vmin = map_of d ''min'', vmax = map_of d ''max'',
                     allowed_values =
                       (case map_of d ''allowed_values'' of Some (VList xs) \<Rightarrow> Some xs | _ \<Rightarrow> None),
                     properties =
                       (case map_of d ''properties'' of Some (VDict p) \<Rightarrow> Some p | _ \<Rightarrow> None),
                     format = map_of d ''format'',
                     description = map_of d ''description''\<rparr>
           | _ \<Rightarrow> None)
      | _ \<Rightarrow> None)"

definition schema_variables :: "pyval \<Rightarrow> var list option" where
  \<comment> \<open>\<open>schema["variables"]\<close> of a loaded schema, entry by entry.\<close>
  "schema_variables schema =
     (case schema of
        VDict d \<Rightarrow>
          (case map_of d ''variables'' of
             Some (VList vs) \<Rightarrow> those (map var_of vs)
           | _ \<Rightarrow> None)
      | _ \<Rightarrow> None)"

definition get_variable_names :: "var list \<Rightarrow> string list" where
  "get_variable_names vars = map name vars"

section \<open>The coercion pass\<close>

definition type_map :: "var list \<Rightarrow> string \<Rightarrow> string option" where
  \<comment> \<open>\<open>{var["name"]: var["type"] for var in ...}\<close>: a later entry overrides an earlier one.\<close>
  "type_map vars = map_of (rev (map (\<lambda>v. (name v, vtype v)) vars))"

definition truthy_tokens :: "string list" where
  "truthy_tokens =
     [''true'', ''yes'', [CHR ''s'', CHR 0xED], ''si'', ''1'', ''verdadero'']"

definition falsy_tokens :: "string list" where
  "falsy_tokens = [''false'', ''no'', ''0'', ''falso'']"

definition coerce_integer :: "pylib \<Rightarrow> string \<Rightarrow> pyval" where
  "coerce_integer lib s =
     (case re_search_digits s of
        Some ds \<Rightarrow> (case py_int lib ds of Some n \<Rightarrow> VInt n | None \<Rightarrow> VNone)
      | None \<Rightarrow> VNone)"

definition coerce_float :: "pylib \<Rightarrow> string \<Rightarrow> pyval" where
  "coerce_float lib s =
     (case float_of_str lib s of Some f \<Rightarrow> VFloat f | None \<Rightarrow> VNone)"

definition coerce_boolean :: "string \<Rightarrow> pyval" where
  "coerce_boolean s =
     (let value_lower = py_strip (py_lower s)
      in if value_lower \<in> set truthy_tokens then VBool True
         else if value_lower \<in> set falsy_tokens then VBool False
         else VNone)"

fun coerce_value :: "pylib \<Rightarrow> string \<Rightarrow> pyval \<Rightarrow> pyval" where
  "coerce_value lib expected_type (VStr s) =
     (if expected_type = ''integer'' then coerce_integer lib s
      else if expected_type = ''float'' then coerce_float lib s
      else if expected_type = ''boolean'' then coerce_boolean s
      else VStr s)"
| "coerce_value lib expected_type v = v"

definition preprocess_value ::
  "pylib \<Rightarrow> (string \<Rightarrow> string option) \<Rightarrow> string \<Rightarrow> pyval \<Rightarrow> pyval" where
  \<comment> \<open>the body of the loop over \<open>processed_data.items()\<close>: the value stored under \<open>key\<close>
      when the loop is done with the item \<open>(key, v)\<close>.\<close>
  "preprocess_value lib tm key v =
     (case tm key of
        None \<Rightarrow> v
      | Some expected_type \<Rightarrow> if v = VNone then v else coerce_value lib expected_type v)"

definition preprocess_data :: "pylib \<Rightarrow> pydict \<Rightarrow> var list \<Rightarrow> pydict" where
  \<comment> \<open>\<open>_preprocess_data\<close>: every item of the copy is visited once, its value replaced
      in place; no key is added or removed.\<close>
  "preprocess_data lib data vars =
     map (\<lambda>(key, v). (key, preprocess_value lib (type_map vars) key v)) data"

section \<open>Validation of a model response\<close>

subsection \<open>The dynamic validation model\<close>

definition type_string_to_python :: "string \<Rightarrow> pytype" where
  "type_string_to_python type_str =
     (if type_str = ''string'' then TStr
      else if type_str = ''integer'' then TInt
      else if type_str = ''float'' then TFloat
      else if type_str = ''boolean'' then TBool
      else TStr)"

fun nested_fields :: "pydict \<Rightarrow> (string \<times> pytype) list \<Rightarrow> (string \<times> pytype) list" where
  \<comment> \<open>the loop over \<open>var["properties"].items()\<close> filling \<open>nested_fields\<close>: a type
      name gives its type, a list an enumeration, anything else no field.\<close>
  "nested_fields [] acc = acc"
| "nested_fields ((prop_name, VStr prop_type) # ps) acc =
     nested_fields ps (AList.update prop_name (type_string_to_python prop_type) acc)"
| "nested_fields ((prop_name, VList enum) # ps) acc =
     nested_fields ps (AList.update prop_name (TLiteral enum) acc)"
| "nested_fields (p # ps) acc = nested_fields ps acc"

definition get_pydantic_field :: "var \<Rightarrow> pyexn + (pytype \<times> field_info option)" where
  \<comment> \<open>\<open>_get_pydantic_field\<close>: the annotation and the \<open>Field\<close> settings, if any. Reading
      \<open>var["allowed_values"]\<close> of a variable that has none raises \<open>KeyError\<close>.\<close>
  "get_pydantic_field v =
     (if vtype v = ''string'' then
        Inr (if format v = Some (VStr ''email'') then TEmailStr else TStr, None)
      else if vtype v = ''integer'' then
        Inr (TInt,
             if vmin v \<noteq> None \<or> vmax v \<noteq> None
             then Some \<lparr>fi_ge = vmin v, fi_le = vmax v, fi_default = None\<rparr>
             else None)
      else if vtype v = ''float'' then Inr (TFloat, None)
      else if vtype v = ''boolean'' then Inr (TBool, None)
      else if vtype v = ''categorical'' then
        (case allowed_values v of
           None \<Rightarrow> Inl (KeyError ''allowed_values'')
         | Some allowed \<Rightarrow> Inr (TLiteral allowed, None))
      else if vtype v = ''list[string]'' then Inr (TList TStr, None)
      else if vtype v = ''list[integer]'' then Inr (TList TInt, None)
      else if vtype v = ''list[object]'' then
        (case properties v of
           Some props \<Rightarrow> Inr (TList (TModel (nested_fields props [])), None)
         | None \<Rightarrow> Inr (TList TDict, None))
      else if vtype v = ''object'' then Inr (TDict, None)
      else Inr (TAny, None))"

datatype extra_mode = ExtraIgnore | ExtraAllow | ExtraForbid

record model_config =
  str_strip_whitespace :: bool
  validate_default :: bool
  arbitrary_types_allowed :: bool
  extra :: "extra_mode option"

definition cv_model_config :: model_config where
  \<comment> \<open>the \<open>ConfigDict\<close> of \<open>create_pydantic_model\<close>; it does not set \<open>extra\<close>.\<close>
  "cv_model_config =
     \<lparr>str_strip_whitespace = True, validate_default = True,
      arbitrary_types_allowed = True, extra = None\<rparr>"

definition no_field_info :: field_info where
  "no_field_info = \<lparr>fi_ge = None, fi_le = None, fi_default = None\<rparr>"

definition model_field :: "var \<Rightarrow> pyexn + field_def" where
  \<comment> \<open>the body of the loop of \<open>create_pydantic_model\<close> for one variable.\<close>
  "model_field v =
     (case get_pydantic_field v of
        Inl e \<Rightarrow> Inl e
      | Inr (python_type, field_config) \<Rightarrow>
          if \<not> required v then
            Inr (TOptional python_type,
                 (case field_config of
                    None \<Rightarrow> no_field_info\<lparr>fi_default := Some VNone\<rparr>
                  | Some fc \<Rightarrow> fc\<lparr>fi_default := Some VNone\<rparr>))
          else
            Inr (python_type,
                 (case field_config of None \<Rightarrow> no_field_info | Some fc \<Rightarrow> fc)))"

fun model_fields :: "var list \<Rightarrow> (string \<times> field_def) list \<Rightarrow> pyexn + (string \<times> field_def) list" where
  \<comment> \<open>the loop \<open>for var in schema["variables"]\<close> filling the dict \<open>fields\<close>.\<close>
  "model_fields [] fdefs = Inr fdefs"
| "model_fields (v # vs) fdefs =
     (case model_field v of
        Inl e \<Rightarrow> Inl e
      | Inr fd \<Rightarrow> model_fields vs (AList.update (name v) fd fdefs))"

definition create_pydantic_model ::
  "var list \<Rightarrow> pyexn + (model_config \<times> (string \<times> field_def) list)" where
  "create_pydantic_model vars =
     (case model_fields vars [] of
        Inl e \<Rightarrow> Inl e
      | Inr fdefs \<Rightarrow> Inr (cv_model_config, fdefs))"

subsection \<open>Validating a record against the model\<close>

text \<open>
  \<open>model(**data)\<close> followed by \<open>model_dump()\<close>, as pydantic defines them: each
  declared field takes the value under its name, validated by \<open>field_check\<close>; a field
  that is absent takes its default, validated too when the configuration says so, and is
  an error when it has none; a key of \<open>data\<close> that is no field is dropped when
  \<open>extra\<close> is unset or \<open>ignore\<close>, kept when it is \<open>allow\<close>, and an error when it is
  \<open>forbid\<close>. All errors are collected.
\<close>

definition located :: "string \<Rightarrow> (string list \<times> string) list + pyval \<Rightarrow>
    (string list \<times> string) list + pyval" where
  "located nm r =
     (case r of
        Inl errs \<Rightarrow> Inl (map (\<lambda>(loc, msg). (nm # loc, msg)) errs)
      | Inr v \<Rightarrow> Inr v)"

definition validate_field ::
  "pylib \<Rightarrow> model_config \<Rightarrow> pydict \<Rightarrow> string \<times> field_def \<Rightarrow>
     (string list \<times> string) list + pyval" where
  "validate_field lib cfg data f =
     (case f of (nm, ty, info) \<Rightarrow>
        (case map_of data nm of
           Some v \<Rightarrow> located nm (field_check lib ty info v)
         | None \<Rightarrow>
             (case fi_default info of
                Some d \<Rightarrow> if validate_default cfg then located nm (field_check lib ty info d) else Inr d
              | None \<Rightarrow> Inl [([nm], ''Field required'')])))"

definition extra_items :: "(string \<times> field_def) list \<Rightarrow> pydict \<Rightarrow> pydict" where
  "extra_items fdefs data = filter (\<lambda>(k, v). k \<notin> fst ` set fdefs) data"

definition model_validate ::
  "pylib \<Rightarrow> model_config \<Rightarrow> (string \<times> field_def) list \<Rightarrow> pydict \<Rightarrow>
     (string list \<times> string) list + pydict" where
  "model_validate lib cfg fdefs data =
     (let results = map (\<lambda>f. (fst f, validate_field lib cfg data f)) fdefs;
          field_errors = concat (map (\<lambda>(nm, r). case r of Inl errs \<Rightarrow> errs | Inr v \<Rightarrow> []) results);
          extras = extra_items fdefs data;
          extra_errors =
            (if extra cfg = Some ExtraForbid
             then map (\<lambda>(k, v). ([k], ''Extra inputs are not permitted'')) extras else []);
          dumped = concat (map (\<lambda>(nm, r). case r of Inl errs \<Rightarrow> [] | Inr v \<Rightarrow> [(nm, v)]) results)
      in if field_errors @ extra_errors = []
         then Inr (dumped @ (if extra cfg = Some ExtraAllow then extras else []))
         else Inl (field_errors @ extra_errors))"

definition format_pydantic_errors :: "(string list \<times> string) list \<Rightarrow> string" where
  \<comment> \<open>\<open>_format_pydantic_errors\<close>. The bullet U+2022 of the source lies outside the
      characters of the model and is written as its three UTF-8 bytes.\<close>
  "format_pydantic_errors errs =
     ''Errores de validaci'' @ [CHR 0xF3] @ ''n:\<newline>''
     @ join ''\<newline>''
         (map (\<lambda>(loc, msg). ''  '' @ [CHR 0xE2, CHR 0x80, CHR 0xA2] @ '' ''
                              @ join '' -> '' loc @ '': '' @ msg) errs)"

definition unexpected_error :: "string \<Rightarrow> string" where
  "unexpected_error m = ''Error inesperado en validaci'' @ [CHR 0xF3] @ ''n: '' @ m"

text \<open>
  The validators return the triple \<open>(is_valid, validated_data, error)\<close> in one of two
  shapes: \<open>Inr d\<close> stands for \<open>(True, d, None)\<close> and \<open>Inl msg\<close> for
  \<open>(False, None, msg)\<close>.
\<close>

definition validate_with_pydantic :: "pylib \<Rightarrow> pydict \<Rightarrow> var list \<Rightarrow> string + pydict" where
  "validate_with_pydantic lib data vars =
     (let data' = preprocess_data lib data vars
      in case create_pydantic_model vars of
           Inl e \<Rightarrow> Inl (unexpected_error (exn_str e))
         | Inr (cfg, fdefs) \<Rightarrow>
             (case create_model_error lib fdefs of
                Some m \<Rightarrow> Inl (unexpected_error m)
              | None \<Rightarrow>
                  (case model_validate lib cfg fdefs data' of
                     Inl errs \<Rightarrow> Inl (format_pydantic_errors errs)
                   | Inr validated_dict \<Rightarrow> Inr validated_dict)))"

subsection \<open>The JSON Schema path\<close>

definition json_type :: "string \<Rightarrow> pyval" where
  "json_type t = VDict [(''type'', VStr t)]"

fun items_props :: "pydict \<Rightarrow> pydict \<Rightarrow> pydict" where
  "items_props [] acc = acc"
| "items_props ((prop_name, VStr prop_type) # ps) acc =
     items_props ps (AList.update prop_name (json_type prop_type) acc)"
| "items_props ((prop_name, VList enum) # ps) acc =
     items_props ps
       (AList.update prop_name (VDict [(''type'', VStr ''string''), (''enum'', VList enum)]) acc)"
| "items_props (p # ps) acc = items_props ps acc"

definition opt_item :: "string \<Rightarrow> pyval option \<Rightarrow> pydict" where
  "opt_item k v = (case v of None \<Rightarrow> [] | Some x \<Rightarrow> [(k, x)])"

definition variable_to_json_schema_property :: "var \<Rightarrow> pyexn + pyval" where
  \<comment> \<open>\<open>_variable_to_json_schema_property\<close>.\<close>
  "variable_to_json_schema_property v =
     (let typed =
            (if vtype v = ''string'' then
               Inr ([(''type'', VStr ''string'')] @ opt_item ''format'' (format v))
             else if vtype v = ''integer'' then
               Inr ([(''type'', VStr ''integer'')] @ opt_item ''minimum'' (vmin v)
                    @ opt_item ''maximum'' (vmax v))
             else if vtype v = ''float'' then Inr [(''type'', VStr ''number'')]
             else if vtype v = ''boolean'' then Inr [(''type'', VStr ''boolean'')]
             else if vtype v = ''categorical'' then
               (case allowed_values v of
                  None \<Rightarrow> Inl (KeyError ''allowed_values'')
                | Some allowed \<Rightarrow> Inr [(''type'', VStr ''string''), (''enum'', VList allowed)])
             else if vtype v = ''list[string]'' then
               Inr [(''type'', VStr ''array''), (''items'', json_type ''string'')]
             else if vtype v = ''list[integer]'' then
               Inr [(''type'', VStr ''array''), (''items'', json_type ''integer'')]
             else if vtype v = ''list[object]'' then
               Inr ([(''type'', VStr ''array'')]
                    @ (case properties v of
                         None \<Rightarrow> []
                       | Some props \<Rightarrow>
                           [(''items'', VDict [(''type'', VStr ''object''),
                                               (''properties'', VDict (items_props props []))])]))
             else if vtype v = ''object'' then
               Inr ([(''type'', VStr ''object'')]
                    @ opt_item ''properties'' (map_option VDict (properties v)))
             else Inr [])
      in case typed of
           Inl e \<Rightarrow> Inl e
         | Inr prop0 \<Rightarrow>
             (let prop = prop0 @ opt_item ''description'' (description v)
              in if \<not> required v
                 then Inr (VDict [(''anyOf'', VList [VDict prop, json_type ''null''])])
                 else Inr (VDict prop)))"

fun json_properties :: "var list \<Rightarrow> pydict \<Rightarrow> string list \<Rightarrow> pyexn + (pydict \<times> string list)" where
  \<comment> \<open>the loop of \<open>schema_to_json_schema\<close> filling \<open>properties\<close> and \<open>required\<close>.\<close>
  "json_properties [] props req = Inr (props, req)"
| "json_properties (v # vs) props req =
     (case variable_to_json_schema_property v of
        Inl e \<Rightarrow> Inl e
      | Inr prop \<Rightarrow>
          json_properties vs (AList.update (name v) prop props)
            (if required v then req @ [name v] else req))"

definition schema_to_json_schema :: "var list \<Rightarrow> pyexn + pydict" where
  "schema_to_json_schema vars =
     (case json_properties vars [] [] of
        Inl e \<Rightarrow> Inl e
      | Inr (props, req) \<Rightarrow>
          Inr ([(''$schema'', VStr ''http://json-schema.org/draft-07/schema#''),
                (''type'', VStr ''object''),
                (''properties'', VDict props),
                (''additionalProperties'', VBool False)]
               @ (if req \<noteq> [] then [(''required'', VList (map VStr req))] else [])))"

definition validate_with_jsonschema :: "pylib \<Rightarrow> pydict \<Rightarrow> var list \<Rightarrow> string + pydict" where
  "validate_with_jsonschema lib data vars =
     (case schema_to_json_schema vars of
        Inl e \<Rightarrow> Inl (unexpected_error (exn_str e))
      | Inr json_schema \<Rightarrow>
          (case jsonschema_validate lib (VDict data) (VDict json_schema) of
             None \<Rightarrow> Inr data
           | Some (json_path, message) \<Rightarrow>
               Inl (''Error de validaci'' @ [CHR 0xF3] @ ''n en '' @ quoted json_path
                    @ '': '' @ message)))"

definition validate_extraction :: "pylib \<Rightarrow> pydict \<Rightarrow> var list \<Rightarrow> bool \<Rightarrow> string + pydict" where
  \<comment> \<open>\<open>validate_extraction(data, schema, use_pydantic)\<close>; the parameter defaults to
      \<open>True\<close>, and no caller in the repository passes another value.\<close>
  "validate_extraction lib data vars use_pydantic =
     (if use_pydantic then validate_with_pydantic lib data vars
      else validate_with_jsonschema lib data vars)"

subsection \<open>Parsing the response text\<close>

definition fence :: string where
  "fence = [CHR 0x60, CHR 0x60, CHR 0x60]"

definition strip_fences :: "string \<Rightarrow> string" where
  \<comment> \<open>the removal of a Markdown code block around the text.\<close>
  "strip_fences text =
     (if startswith text fence then
        (let lines = split_on CHR ''\<newline>'' text;
             lines1 = (case lines of
                         [] \<Rightarrow> []
                       | l # ls \<Rightarrow> if startswith l fence then ls else lines);
             lines2 = (if lines1 \<noteq> [] \<and> py_strip (last lines1) = fence
                       then butlast lines1 else lines1)
         in join ''\<newline>'' lines2)
      else text)"

definition parse_json_safely :: "pylib \<Rightarrow> string \<Rightarrow> string + pydict" where
  \<comment> \<open>\<open>parse_json_safely\<close> returns \<open>(data, None)\<close>, here \<open>Inr data\<close>, or
      \<open>(None, error)\<close>, here \<open>Inl error\<close>.\<close>
  "parse_json_safely lib text =
     (case json_loads lib (strip_fences (py_strip text)) of
        Inl m \<Rightarrow> Inl (''Error parseando JSON: '' @ m)
      | Inr (VDict d) \<Rightarrow> Inr d
      | Inr other \<Rightarrow> Inl ''El JSON parseado no es un objeto'')"

definition generate_correction_prompt :: "string \<Rightarrow> string \<Rightarrow> string" where
  "generate_correction_prompt original_response validation_error =
     ''Tu respuesta anterior no pudo validarse correctamente.\<newline>\<newline>Error encontrado:\<newline>''
     @ validation_error
     @ ''\<newline>\<newline>Tu respuesta original fue:\<newline>''
     @ take 500 original_response
     @ ''...\<newline>\<newline>Por favor, corrige el JSON para que cumpla exactamente con el esquema requerido.\<newline>Aseg''
     @ [CHR 0xFA] @ ''rate de:\<newline>1. Que el JSON sea v'' @ [CHR 0xE1]
     @ ''lido (sin comas extra, comillas correctas)\<newline>2. Que todos los campos required est''
     @ [CHR 0xE9] @ ''n presentes\<newline>3. Que los tipos de datos sean correctos (integer como n''
     @ [CHR 0xFA] @ ''mero, no string)\<newline>4. Que los valores categorical sean exactamente uno de los permitidos\<newline>5. Que las listas tengan el formato correcto\<newline>\<newline>Responde ''
     @ [CHR 0xDA] @ ''NICAMENTE con el JSON corregido, sin explicaciones ni markdown.''"

section \<open>Rendering the schema into the prompt\<close>

definition dquoted :: "string \<Rightarrow> string" where
  "dquoted s = [CHR 0x22] @ s @ [CHR 0x22]"

definition range_info :: "pylib \<Rightarrow> var \<Rightarrow> string list" where
  "range_info lib v =
     (case vmin v of None \<Rightarrow> [] | Some lo \<Rightarrow> [''min='' @ py_str lib lo])
     @ (case vmax v of None \<Rightarrow> [] | Some hi \<Rightarrow> [''max='' @ py_str lib hi])"

definition type_description :: "pylib \<Rightarrow> var \<Rightarrow> pyexn + string" where
  \<comment> \<open>the parts appended to \<open>desc_parts\<close> for the type of the variable.\<close>
  "type_description lib v =
     (if vtype v = ''string'' then Inr (dquoted ''string'')
      else if vtype v = ''boolean'' then Inr ''true o false''
      else if vtype v = ''integer'' then
        Inr (''number (entero)''
             @ (if vmin v \<noteq> None \<or> vmax v \<noteq> None
                then '' ('' @ join '', '' (range_info lib v) @ '')'' else []))
      else if vtype v = ''categorical'' then
        (case allowed_values v of
           None \<Rightarrow> Inl (KeyError ''allowed_values'')
         | Some allowed \<Rightarrow>
             Inr (''uno de: ['' @ join '', '' (map (\<lambda>a. dquoted (py_str lib a)) allowed) @ '']''))
      else if vtype v = ''list[string]'' then Inr (''['' @ dquoted ''string'' @ '', ...]'')
      else if vtype v = ''list[object]'' then Inr ''[{...}, ...]''
      else Inr (vtype v))"

definition field_line :: "pylib \<Rightarrow> var \<Rightarrow> pyexn + string" where
  \<comment> \<open>\<open>"".join(desc_parts)\<close> for one variable.\<close>
  "field_line lib v =
     (case type_description lib v of
        Inl e \<Rightarrow> Inl e
      | Inr d \<Rightarrow>
          Inr (''  '' @ [CHR 0x22] @ name v @ [CHR 0x22] @ '': '' @ d
               @ (if required v then '' [REQUERIDO]'' else '' [opcional, puede ser null]'')))"

fun field_lines :: "pylib \<Rightarrow> var list \<Rightarrow> pyexn + string list" where
  "field_lines lib [] = Inr []"
| "field_lines lib (v # vs) =
     (case field_line lib v of
        Inl e \<Rightarrow> Inl e
      | Inr l \<Rightarrow> (case field_lines lib vs of Inl e \<Rightarrow> Inl e | Inr ls \<Rightarrow> Inr (l # ls)))"

definition format_schema_for_prompt :: "pylib \<Rightarrow> var list \<Rightarrow> pyexn + string" where
  "format_schema_for_prompt lib vars =
     (case field_lines lib vars of
        Inl e \<Rightarrow> Inl e
      | Inr ls \<Rightarrow> Inr (join ''\<newline>'' ([''Esquema JSON requerido:\<newline>{''] @ ls @ [''}''])))"

text \<open>
  Modelled from the spec: the re-extraction of the canonical field list from the rendered
  schema. The repository renders the schema and has no function that reads the rendering
  back; the spec names the operation in its round-trip property and says the rendering has
  one line per field. The reading is the direct one: a line that opens with two spaces and
  a double quote is a field line, and its field name runs up to the next double quote.
\<close>

definition line_field_name :: "string \<Rightarrow> string option" where
  "line_field_name l =
     (if startswith l (''  '' @ [CHR 0x22])
      then Some (takeWhile (\<lambda>c. c \<noteq> CHR 0x22) (drop 3 l)) else None)"

definition extract_field_names :: "string \<Rightarrow> string list" where
  "extract_field_names text =
     concat (map (\<lambda>l. case line_field_name l of None \<Rightarrow> [] | Some n \<Rightarrow> [n])
               (split_on CHR ''\<newline>'' text))"

definition one_line_variable :: "pylib \<Rightarrow> var \<Rightarrow> bool" where
  \<comment> \<open>a variable whose rendering cannot break its line or its name: no line break in the
      name, in the type, or in the rendering of an allowed value or of a bound, and no
      double quote in the name; a categorical variable has its allowed values.\<close>
  "one_line_variable lib v =
     (CHR ''\<newline>'' \<notin> set (name v) \<and> CHR 0x22 \<notin> set (name v)
      \<and> CHR ''\<newline>'' \<notin> set (vtype v)
      \<and> (vtype v = ''categorical'' \<longrightarrow>
           (case allowed_values v of
              None \<Rightarrow> False
            | Some allowed \<Rightarrow> list_all (\<lambda>a. CHR ''\<newline>'' \<notin> set (py_str lib a)) allowed))
      \<and> (vtype v = ''integer'' \<longrightarrow>
           (case vmin v of None \<Rightarrow> True | Some b \<Rightarrow> CHR ''\<newline>'' \<notin> set (py_str lib b))
           \<and> (case vmax v of None \<Rightarrow> True | Some b \<Rightarrow> CHR ''\<newline>'' \<notin> set (py_str lib b))))"

section \<open>The extraction client\<close>

text \<open>
  The client of \<open>openai_client.py\<close>. A request is what the client passes to
  \<open>chat.completions.create\<close>. The model behind the API is a function from the requests
  made so far and the present request to the text of the answer, or to the text of the
  exception the call raises; the list of requests made is threaded through the client, so
  that the calls can be counted. A prompt configuration is its method
  \<open>build_full_prompt\<close>, from the text and the schema to the system and user prompts.
\<close>

record openai_client =
  model :: string
  temperature :: rat
  max_tokens :: "nat option"

record request =
  req_model :: string
  req_system :: string
  req_user :: string
  req_temperature :: rat
  req_max_tokens :: "nat option"

type_synonym llm = "request list \<Rightarrow> request \<Rightarrow> string + string"

type_synonym prompt_config = "string \<Rightarrow> var list \<Rightarrow> string \<times> string"

definition build_extraction_prompt ::
  "prompt_config \<Rightarrow> string \<Rightarrow> var list \<Rightarrow> prompt_config option \<Rightarrow> string \<times> string" where
  \<comment> \<open>\<open>_build_extraction_prompt\<close>; \<open>create_default_config\<close> is the configuration
      used when none is given.\<close>
  "build_extraction_prompt create_default_config text vars pc =
     (case pc of
        None \<Rightarrow> create_default_config text vars
      | Some config \<Rightarrow> config text vars)"

definition correction_request ::
  "openai_client \<Rightarrow> prompt_config \<Rightarrow> string \<Rightarrow> var list \<Rightarrow> string \<Rightarrow>
     prompt_config option \<Rightarrow> request" where
  \<comment> \<open>the request of \<open>_retry_with_correction\<close>.\<close>
  "correction_request c create_default_config correction_prompt vars text pc =
     (case build_extraction_prompt create_default_config text vars pc of
        (system_prompt, user_prompt) \<Rightarrow>
          \<lparr>req_model = model c,
           req_system = system_prompt,
           req_user = user_prompt
             @ ''\<newline>\<newline>---\<newline>IMPORTANTE: Tu respuesta anterior tuvo el siguiente error:\<newline>''
             @ correction_prompt
             @ ''\<newline>\<newline>Por favor, genera una respuesta completa y correcta que incluya TODOS los campos del schema.'',
           req_temperature = 1 / 10,
           req_max_tokens = max_tokens c\<rparr>)"

definition retry_with_correction ::
  "openai_client \<Rightarrow> pylib \<Rightarrow> llm \<Rightarrow> prompt_config \<Rightarrow> string \<Rightarrow> var list \<Rightarrow> nat \<Rightarrow>
     string \<Rightarrow> prompt_config option \<Rightarrow> request list \<Rightarrow> (pyexn + pydict) \<times> request list" where
  \<comment> \<open>\<open>_retry_with_correction\<close>: what it returns or raises, and the requests made.\<close>
  "retry_with_correction c lib api create_default_config correction_prompt vars retry_count
       text pc calls =
     (let req = correction_request c create_default_config correction_prompt vars text pc
      in case api calls req of
           Inl m \<Rightarrow>
             (Inl (PyException (''Error en reintento '' @ str_nat retry_count @ '': '' @ m)),
              calls @ [req])
         | Inr response_text \<Rightarrow>
             (case parse_json_safely lib response_text of
                Inl parse_error \<Rightarrow>
                  (Inl (ValueError (''Error parseando JSON en reintento '' @ str_nat retry_count
                                    @ '': '' @ parse_error)),
                   calls @ [req])
              | Inr data \<Rightarrow>
                  (case validate_extraction lib data vars True of
                     Inl validation_error \<Rightarrow>
                       (Inl (ValueError (''Validaci'' @ [CHR 0xF3] @ ''n fall'' @ [CHR 0xF3]
                                         @ '' en reintento '' @ str_nat retry_count @ '': ''
                                         @ validation_error)),
                        calls @ [req])
                   | Inr validated_data \<Rightarrow> (Inr validated_data, calls @ [req]))))"

definition extraction_request ::
  "openai_client \<Rightarrow> prompt_config \<Rightarrow> string \<Rightarrow> var list \<Rightarrow> prompt_config option \<Rightarrow> request" where
  \<comment> \<open>the first request of \<open>extract_profile\<close>.\<close>
  "extraction_request c create_default_config text vars pc =
     (case build_extraction_prompt create_default_config text vars pc of
        (system_prompt, user_prompt) \<Rightarrow>
          \<lparr>req_model = model c, req_system = system_prompt, req_user = user_prompt,
           req_temperature = temperature c, req_max_tokens = max_tokens c\<rparr>)"

definition extract_profile_attempt ::
  "openai_client \<Rightarrow> pylib \<Rightarrow> llm \<Rightarrow> prompt_config \<Rightarrow> string \<Rightarrow> var list \<Rightarrow>
     prompt_config option \<Rightarrow> nat \<Rightarrow> request list \<Rightarrow> (pyexn + pydict) \<times> request list" where
  \<comment> \<open>the body of \<open>extract_profile\<close>, one run of it.\<close>
  "extract_profile_attempt c lib api create_default_config text vars pc retry_count calls =
     (let req = extraction_request c create_default_config text vars pc
      in case api calls req of
           Inl m \<Rightarrow> (Inl (PyException (''Error llamando a OpenAI API: '' @ m)), calls @ [req])
         | Inr response_text \<Rightarrow>
             (case parse_json_safely lib response_text of
                Inl parse_error \<Rightarrow>
                  if retry_count < 1 then
                    retry_with_correction c lib api create_default_config
                      (generate_correction_prompt response_text parse_error) vars
                      (retry_count + 1) text pc (calls @ [req])
                  else
                    (Inl (ValueError (''No se pudo parsear JSON despu'' @ [CHR 0xE9] @ ''s de ''
                                      @ str_nat (retry_count + 1) @ '' intentos: '' @ parse_error)),
                     calls @ [req])
              | Inr data \<Rightarrow>
                  (case validate_extraction lib data vars True of
                     Inl validation_error \<Rightarrow>
                       if retry_count < 1 then
                         retry_with_correction c lib api create_default_config
                           (generate_correction_prompt response_text validation_error) vars
                           (retry_count + 1) text pc (calls @ [req])
                       else
                         (Inl (ValueError (''Validaci'' @ [CHR 0xF3] @ ''n fall'' @ [CHR 0xF3]
                                           @ '' despu'' @ [CHR 0xE9] @ ''s de ''
                                           @ str_nat (retry_count + 1) @ '' intentos: ''
                                           @ validation_error)),
                          calls @ [req])
                   | Inr validated_data \<Rightarrow> (Inr validated_data, calls @ [req]))))"

primrec retrying ::
  "nat \<Rightarrow> (request list \<Rightarrow> (pyexn + 'a) \<times> request list) \<Rightarrow> request list \<Rightarrow>
     (pyexn + 'a) \<times> request list" where
  \<comment> \<open>the decorator \<open>@retry(retry=retry_if_exception_type((Exception,)), reraise=True)\<close>
      with \<open>n\<close> attempts left after the present one: an attempt that raises is run again
      while attempts are left, and the last exception is raised again as it is.\<close>
  "retrying 0 f calls = f calls"
| "retrying (Suc n) f calls =
     (case f calls of
        (Inl e, calls') \<Rightarrow> retrying n f calls'
      | (Inr r, calls') \<Rightarrow> (Inr r, calls'))"

definition stop_after_attempt :: nat where
  \<comment> \<open>\<open>stop=stop_after_attempt(1)\<close> on \<open>extract_profile\<close>.\<close>
  "stop_after_attempt = 1"

definition extract_profile ::
  "openai_client \<Rightarrow> pylib \<Rightarrow> llm \<Rightarrow> prompt_config \<Rightarrow> string \<Rightarrow> var list \<Rightarrow>
     prompt_config option \<Rightarrow> nat \<Rightarrow> request list \<Rightarrow> (pyexn + pydict) \<times> request list" where
  "extract_profile c lib api create_default_config text vars pc retry_count calls =
     retrying (stop_after_attempt - 1)
       (extract_profile_attempt c lib api create_default_config text vars pc retry_count) calls"


subsection \<open>The LiteLLM client\<close>

text \<open>
  The client of \<open>litellm_client.py\<close> holds the same three attributes of
  \<open>BaseLLMClient\<close>; the application sets neither its \<open>api_key\<close> nor its
  \<open>api_base\<close>. It passes \<open>max_tokens\<close> only when the attribute is truthy, words its
  errors in its own way, and its \<open>extract_profile\<close> is decorated with three attempts.
\<close>

definition litellm_max_tokens :: "openai_client \<Rightarrow> nat option" where
  \<comment> \<open>\<open>if self.max_tokens: kwargs["max_tokens"] = self.max_tokens\<close>.\<close>
  "litellm_max_tokens c =
     (case max_tokens c of None \<Rightarrow> None | Some n \<Rightarrow> if n = 0 then None else Some n)"

definition litellm_correction_request ::
  "openai_client \<Rightarrow> prompt_config \<Rightarrow> string \<Rightarrow> var list \<Rightarrow> string \<Rightarrow>
     prompt_config option \<Rightarrow> request" where
  "litellm_correction_request c create_default_config correction_prompt vars text pc =
     (case build_extraction_prompt create_default_config text vars pc of
        (system_prompt, user_prompt) \<Rightarrow>
          \<lparr>req_model = model c,
           req_system = system_prompt,
           req_user = user_prompt
             @ ''\<newline>\<newline>---\<newline>IMPORTANTE: Tu respuesta anterior tuvo el siguiente error:\<newline>''
             @ correction_prompt
             @ ''\<newline>\<newline>Por favor, genera una respuesta completa y correcta que incluya TODOS los campos del schema.'',
           req_temperature = 1 / 10,
           req_max_tokens = litellm_max_tokens c\<rparr>)"

definition litellm_retry_with_correction ::
  "openai_client \<Rightarrow> pylib \<Rightarrow> llm \<Rightarrow> prompt_config \<Rightarrow> string \<Rightarrow> var list \<Rightarrow> nat \<Rightarrow>
     string \<Rightarrow> prompt_config option \<Rightarrow> request list \<Rightarrow> (pyexn + pydict) \<times> request list" where
  "litellm_retry_with_correction c lib api create_default_config correction_prompt vars
       retry_count text pc calls =
     (let req = litellm_correction_request c create_default_config correction_prompt vars text pc
      in case api calls req of
           Inl m \<Rightarrow> (Inl (PyException (''Error en reintento: '' @ m)), calls @ [req])
         | Inr response_text \<Rightarrow>
             (case parse_json_safely lib response_text of
                Inl parse_error \<Rightarrow>
                  (Inl (ValueError (''Error parseando JSON en reintento: '' @ parse_error)),
                   calls @ [req])
              | Inr data \<Rightarrow>
                  (case validate_extraction lib data vars True of
                     Inl validation_error \<Rightarrow>
                       (Inl (ValueError (''Validaci'' @ [CHR 0xF3] @ ''n fall'' @ [CHR 0xF3]
                                         @ '' en reintento: '' @ validation_error)),
                        calls @ [req])
                   | Inr validated_data \<Rightarrow> (Inr validated_data, calls @ [req]))))"

definition litellm_extraction_request ::
  "openai_client \<Rightarrow> prompt_config \<Rightarrow> string \<Rightarrow> var list \<Rightarrow> prompt_config option \<Rightarrow> request" where
  "litellm_extraction_request c create_default_config text vars pc =
     (case build_extraction_prompt create_default_config text vars pc of
        (system_prompt, user_prompt) \<Rightarrow>
          \<lparr>req_model = model c, req_system = system_prompt, req_user = user_prompt,
           req_temperature = temperature c, req_max_tokens = litellm_max_tokens c\<rparr>)"

definition litellm_extract_profile_attempt ::
  "openai_client \<Rightarrow> pylib \<Rightarrow> llm \<Rightarrow> prompt_config \<Rightarrow> string \<Rightarrow> var list \<Rightarrow>
     prompt_config option \<Rightarrow> nat \<Rightarrow> request list \<Rightarrow> (pyexn + pydict) \<times> request list" where
  "litellm_extract_profile_attempt c lib api create_default_config text vars pc retry_count calls =
     (let req = litellm_extraction_request c create_default_config text vars pc
      in case api calls req of
           Inl m \<Rightarrow> (Inl (PyException (''Error llamando a LiteLLM: '' @ m)), calls @ [req])
         | Inr response_text \<Rightarrow>
             (case parse_json_safely lib response_text of
                Inl parse_error \<Rightarrow>
                  if retry_count < 1 then
                    litellm_retry_with_correction c lib api create_default_config
                      (generate_correction_prompt response_text parse_error) vars
                      (retry_count + 1) text pc (calls @ [req])
                  else
                    (Inl (ValueError (''No se pudo parsear JSON: '' @ parse_error)), calls @ [req])
              | Inr data \<Rightarrow>
                  (case validate_extraction lib data vars True of
                     Inl validation_error \<Rightarrow>
                       if retry_count < 1 then
                         litellm_retry_with_correction c lib api create_default_config
                           (generate_correction_prompt response_text validation_error) vars
                           (retry_count + 1) text pc (calls @ [req])
                       else
                         (Inl (ValueError (''Validaci'' @ [CHR 0xF3] @ ''n fall'' @ [CHR 0xF3]
                                           @ '': '' @ validation_error)),
                          calls @ [req])
                   | Inr validated_data \<Rightarrow> (Inr validated_data, calls @ [req]))))"

definition litellm_stop_after_attempt :: nat where
  \<comment> \<open>\<open>stop=stop_after_attempt(3)\<close> on \<open>LiteLLMClient.extract_profile\<close>.\<close>
  "litellm_stop_after_attempt = 3"

definition litellm_extract_profile ::
  "openai_client \<Rightarrow> pylib \<Rightarrow> llm \<Rightarrow> prompt_config \<Rightarrow> string \<Rightarrow> var list \<Rightarrow>
     prompt_config option \<Rightarrow> nat \<Rightarrow> request list \<Rightarrow> (pyexn + pydict) \<times> request list" where
  "litellm_extract_profile c lib api create_default_config text vars pc retry_count calls =
     retrying (litellm_stop_after_attempt - 1)
       (litellm_extract_profile_attempt c lib api create_default_config text vars pc retry_count)
       calls"

subsection \<open>A client of either class\<close>

datatype llm_client = OpenAIClient openai_client | LiteLLMClient openai_client

definition client_extract_profile ::
  "llm_client \<Rightarrow> pylib \<Rightarrow> llm \<Rightarrow> prompt_config \<Rightarrow> string \<Rightarrow> var list \<Rightarrow> prompt_config \<Rightarrow>
     pyexn + pydict" where
  \<comment> \<open>\<open>llm_client.extract_profile(text, schema, prompt_config)\<close>, the method of the class
      of the client; the provider behind it has seen no request before.\<close>
  "client_extract_profile client lib api create_default_config text vars pc =
     (case client of
        OpenAIClient c \<Rightarrow>
          fst (extract_profile c lib api create_default_config text vars (Some pc) 0 [])
      | LiteLLMClient c \<Rightarrow>
          fst (litellm_extract_profile c lib api create_default_config text vars (Some pc) 0 []))"

section \<open>Derived fields\<close>

text \<open>
  \<open>to_bool\<close> asks \<open>pd.isna(value)\<close> for its truth value. On a list, \<open>pd.isna\<close>
  answers with an array of one flag per element of \<open>np.asarray(value, dtype=object)\<close>,
  and the truth value of an array is defined only when it has one element: numpy raises
  \<open>ValueError\<close> for more than one, and for none according to its version. The shape
  of the array is the length of the list followed by the dimensions its elements share.
\<close>

fun lcp :: "nat list \<Rightarrow> nat list \<Rightarrow> nat list" where
  "lcp (x # xs) (y # ys) = (if x = y then x # lcp xs ys else [])"
| "lcp xs ys = []"

fun np_shape :: "pyval \<Rightarrow> nat list" where
  "np_shape (VList xs) =
     length xs # (case map np_shape xs of [] \<Rightarrow> [] | s # ss \<Rightarrow> foldl lcp s ss)"
| "np_shape v = []"

definition array_size :: "pyval list \<Rightarrow> nat" where
  "array_size xs = prod_list (np_shape (VList xs))"

definition to_bool_tokens :: "string list" where
  "to_bool_tokens = [''true'', ''yes'', ''s'' @ [CHR 0xED], ''si'', ''1'']"

fun to_bool :: "pylib \<Rightarrow> pyval \<Rightarrow> pyexn + bool" where
  "to_bool lib VNone = Inr False"
| "to_bool lib (VFloat f) = Inr (f \<noteq> FNaN \<and> f \<noteq> FFinite 0)"
| "to_bool lib (VList xs) =
     (if 2 \<le> array_size xs then
        Inl (ValueError
          ''The truth value of an array with more than one element is ambiguous. Use a.any() or a.all()'')
      else if array_size xs = 0 \<and> empty_array_raises lib then
        Inl (ValueError
          (''The truth value of an empty array is ambiguous. Use '' @ [CHR 0x60]
           @ ''array.size > 0'' @ [CHR 0x60] @ '' to check that an array is not empty.''))
      else Inr False)"
| "to_bool lib (VBool b) = Inr b"
| "to_bool lib (VStr s) = Inr (s \<noteq> [] \<and> py_lower s \<in> set to_bool_tokens)"
| "to_bool lib (VInt i) = Inr (i \<noteq> 0)"
| "to_bool lib (VDict d) = Inr False"

definition possible_exp_fields :: "string list" where
  "possible_exp_fields =
     [''experiencia_electricista_confirmada'',
      ''experiencia_electromecanico_confirmada'',
      ''experiencia_mecanico_industrial_confirmada'',
      ''experiencia_pa'' @ [CHR 0xF1] @ ''ol_depositos_confirmada'',
      ''experiencia_confirmada'']"

definition get_or_false :: "pydict \<Rightarrow> string \<Rightarrow> pyval" where
  \<comment> \<open>\<open>result.get(key, False)\<close>.\<close>
  "get_or_false result key = (case map_of result key of None \<Rightarrow> VBool False | Some v \<Rightarrow> v)"

definition experience_signal :: "pylib \<Rightarrow> pydict \<Rightarrow> pyexn + bool" where
  \<comment> \<open>the loop over \<open>possible_exp_fields\<close>: the first name that is a key of the record
      decides; \<open>False\<close> when none is.\<close>
  "experience_signal lib result =
     (case find (\<lambda>field. map_of result field \<noteq> None) possible_exp_fields of
        None \<Rightarrow> Inr False
      | Some field \<Rightarrow> to_bool lib (get_or_false result field))"

definition calculate_derived_fields :: "pylib \<Rightarrow> pydict \<Rightarrow> pyexn + pydict" where
  \<comment> \<open>\<open>Inr\<close> is the record returned, the argument itself after the assignment to
      \<open>preaprobado\<close>, the only write of the function; \<open>Inl\<close> is an exception, raised
      before anything is written.\<close>
  "calculate_derived_fields lib result =
     (case to_bool lib (get_or_false result ''edad_en_rango'') of
        Inl e \<Rightarrow> Inl e
      | Inr edad_en_rango \<Rightarrow>
     (case experience_signal lib result of
        Inl e \<Rightarrow> Inl e
      | Inr experiencia_confirmada \<Rightarrow>
     (case to_bool lib (get_or_false result ''hay_foto_en_cv'') of
        Inl e \<Rightarrow> Inl e
      | Inr hay_foto \<Rightarrow>
     (case to_bool lib (get_or_false result ''secundaria_tecnica'') of
        Inl e \<Rightarrow> Inl e
      | Inr secundaria_tecnica \<Rightarrow>
          Inr (AList.update ''preaprobado''
                 (VBool (edad_en_rango \<and> experiencia_confirmada \<and> hay_foto \<and> secundaria_tecnica))
                 result)))))"

section \<open>Processing one document, and a batch\<close>

text \<open>
  What \<open>process_single_cv\<close> calls outside the modelled core is a parameter: the
  Drive service (what fetching a file yields: the bytes, or the text of the exception),
  the hash, the libraries that read a PDF or DOCX file (Docling, \<open>None\<close> when
  \<open>parse_with_docling\<close> raises; pymupdf, pdfplumber and python-docx, each with the
  text it extracts or the text of its exception), the text normalisation, and
  \<open>str\<close> of a parse result that is not a string.
\<close>

text \<open>
  An entry of the list of files, as the upload and the Drive listing build it: the name and
  the source are always there, a key that may be absent is an option, and
  \<open>fi_selected\<close> is the truth value of \<open>f.get("selected", True)\<close>.
\<close>

record file_info =
  fi_name :: string
  fi_source :: string
  fi_link :: "string option"
  fi_content :: "string option"
  fi_file_id :: "string option"
  fi_mime_type :: "string option"
  fi_selected :: bool

datatype parsed =
    ParsedText string
  | ParsedDict (p_text: string) (p_has_photo: bool) (p_images_count: nat)

record services =
  sha1_hexdigest :: "string \<Rightarrow> string"
  docling :: "string \<Rightarrow> string \<Rightarrow> parsed option"
  pymupdf_text :: "string \<Rightarrow> string + string"
  pdfplumber_text :: "string \<Rightarrow> string + string"
  docx_text_parts :: "string \<Rightarrow> string + string list"
  normalize_text :: "string \<Rightarrow> string"
  str_of_parsed :: "parsed \<Rightarrow> string"

type_synonym drive_service = "string \<Rightarrow> string + string"

definition download_file :: "string \<Rightarrow> drive_service \<Rightarrow> pyexn + string" where
  "download_file file_id service =
     (case service file_id of
        Inl m \<Rightarrow> Inl (PyException (''Error descargando archivo '' @ file_id @ '': '' @ m))
      | Inr content \<Rightarrow> Inr content)"

definition as_parsed :: "bool \<Rightarrow> string \<Rightarrow> parsed" where
  \<comment> \<open>what the traditional methods return for a text: the text, or with OCR asked for, a
      dict around it.\<close>
  "as_parsed use_ocr text = (if use_ocr then ParsedDict text False 0 else ParsedText text)"

definition parse_pdf_traditional :: "services \<Rightarrow> string \<Rightarrow> bool \<Rightarrow> pyexn + parsed" where
  "parse_pdf_traditional sv content use_ocr =
     (let pdfplumber =
            (case pdfplumber_text sv content of
               Inl m \<Rightarrow>
                 Inl (ValueError (''Error parseando PDF con ambos m'' @ [CHR 0xE9] @ ''todos: '' @ m))
             | Inr text \<Rightarrow>
                 if py_strip text \<noteq> [] then Inr (as_parsed use_ocr text)
                 else Inl (ValueError (''Error parseando PDF con ambos m'' @ [CHR 0xE9] @ ''todos: ''
                                       @ ''El PDF no contiene texto extra'' @ [CHR 0xED] @ ''ble'')))
      in case pymupdf_text sv content of
           Inl m \<Rightarrow> pdfplumber
         | Inr text \<Rightarrow> if py_strip text \<noteq> [] then Inr (as_parsed use_ocr text) else pdfplumber)"

definition parse_pdf :: "services \<Rightarrow> string \<Rightarrow> bool \<Rightarrow> pyexn + parsed" where
  "parse_pdf sv content use_ocr =
     (if use_ocr then
        (case docling sv content ''application/pdf'' of
           Some r \<Rightarrow> Inr r
         | None \<Rightarrow> parse_pdf_traditional sv content use_ocr)
      else parse_pdf_traditional sv content use_ocr)"

definition parse_docx_traditional :: "services \<Rightarrow> string \<Rightarrow> bool \<Rightarrow> pyexn + parsed" where
  "parse_docx_traditional sv content use_ocr =
     (case docx_text_parts sv content of
        Inl m \<Rightarrow> Inl (ValueError (''Error parseando DOCX: '' @ m))
      | Inr text_parts \<Rightarrow>
          if text_parts = [] then
            Inl (ValueError (''Error parseando DOCX: ''
                             @ ''El documento DOCX no contiene texto extra'' @ [CHR 0xED] @ ''ble''))
          else Inr (as_parsed use_ocr (join ''\<newline>\<newline>'' text_parts)))"

definition parse_docx :: "services \<Rightarrow> string \<Rightarrow> bool \<Rightarrow> pyexn + parsed" where
  "parse_docx sv content use_ocr =
     (if use_ocr then
        (case docling sv content
                ''application/vnd.openxmlformats-officedocument.wordprocessingml.document'' of
           Some r \<Rightarrow> Inr r
         | None \<Rightarrow> parse_docx_traditional sv content use_ocr)
      else parse_docx_traditional sv content use_ocr)"

definition parse_file :: "services \<Rightarrow> string \<Rightarrow> string \<Rightarrow> bool \<Rightarrow> pyexn + parsed" where
  "parse_file sv content mime_type use_ocr =
     (if contains ''pdf'' (py_lower mime_type) then parse_pdf sv content use_ocr
      else if contains ''word'' (py_lower mime_type) \<or> contains ''docx'' (py_lower mime_type)
      then parse_docx sv content use_ocr
      else Inl (ValueError (''Tipo de archivo no soportado: '' @ mime_type)))"

definition initial_result :: "file_info \<Rightarrow> pydict" where
  "initial_result fi =
     [(''archivo'', VStr (fi_name fi)),
      (''fuente'', VStr (fi_source fi)),
      (''link'', VStr (case fi_link fi of None \<Rightarrow> [] | Some l \<Rightarrow> l)),
      (''error'', VStr [])]"

definition get_content ::
  "services \<Rightarrow> file_info \<Rightarrow> drive_service option \<Rightarrow> pydict \<Rightarrow> (pyexn + string) \<times> pydict" where
  \<comment> \<open>the content of the file, and the record, which gains the hash of a downloaded file.\<close>
  "get_content sv fi drive result =
     (if fi_source fi = ''local'' then
        (case fi_content fi of
           None \<Rightarrow> (Inl (KeyError ''content''), result)
         | Some content \<Rightarrow> (Inr content, result))
      else
        (case drive of
           None \<Rightarrow> (Inl (ValueError ''Servicio de Google Drive no disponible''), result)
         | Some service \<Rightarrow>
             (case fi_file_id fi of
                None \<Rightarrow> (Inl (KeyError ''file_id''), result)
              | Some file_id \<Rightarrow>
                  (case download_file file_id service of
                     Inl e \<Rightarrow> (Inl e, result)
                   | Inr content \<Rightarrow>
                       (Inr content,
                        AList.update ''sha1'' (VStr (sha1_hexdigest sv content)) result)))))"

definition text_of_parsed :: "services \<Rightarrow> bool \<Rightarrow> parsed \<Rightarrow> string" where
  "text_of_parsed sv use_ocr parsed_result =
     (case parsed_result of
        ParsedDict text has_photo images_count \<Rightarrow>
          if use_ocr then
            (if has_photo
             then ''[NOTA: Este CV contiene '' @ str_nat images_count
                  @ '' imagen(es)/foto(s)]\<newline>\<newline>'' @ text
             else text)
          else str_of_parsed sv parsed_result
      | ParsedText text \<Rightarrow> text)"

definition cv_text ::
  "services \<Rightarrow> file_info \<Rightarrow> bool \<Rightarrow> string \<Rightarrow> pyexn + string" where
  \<comment> \<open>from the content to the normalised text handed to the model.\<close>
  "cv_text sv fi use_ocr content =
     (case fi_mime_type fi of
        None \<Rightarrow> Inl (KeyError ''mime_type'')
      | Some mime_type \<Rightarrow>
          (case parse_file sv content mime_type use_ocr of
             Inl e \<Rightarrow> Inl e
           | Inr parsed_result \<Rightarrow>
               (let text = normalize_text sv (text_of_parsed sv use_ocr parsed_result)
                in if py_strip text = []
                   then Inl (ValueError ''No se pudo extraer texto del archivo'')
                   else Inr text)))"

definition dict_update :: "pydict \<Rightarrow> pydict \<Rightarrow> pydict" where
  \<comment> \<open>\<open>result.update(extracted_data)\<close>.\<close>
  "dict_update result extracted_data =
     foldl (\<lambda>r (k, v). AList.update k v r) result extracted_data"

definition try_block ::
  "services \<Rightarrow> pylib \<Rightarrow> llm_client \<Rightarrow> llm \<Rightarrow> prompt_config \<Rightarrow> file_info \<Rightarrow> var list \<Rightarrow>
     prompt_config \<Rightarrow> drive_service option \<Rightarrow> bool \<Rightarrow> pyexn option \<times> pydict" where
  \<comment> \<open>the \<open>try\<close> block of \<open>process_single_cv\<close>: the exception that ends it, if any,
      and the record \<open>result\<close> at that moment.\<close>
  "try_block sv lib client api create_default_config fi vars pc drive use_ocr =
     (case get_content sv fi drive (initial_result fi) of
        (Inl e, result) \<Rightarrow> (Some e, result)
      | (Inr content, result) \<Rightarrow>
          (case cv_text sv fi use_ocr content of
             Inl e \<Rightarrow> (Some e, result)
           | Inr text \<Rightarrow>
               (case client_extract_profile client lib api create_default_config text vars pc of
                  Inl e \<Rightarrow> (Some e, result)
                | Inr extracted_data \<Rightarrow>
                    (case calculate_derived_fields lib (dict_update result extracted_data) of
                       Inl e \<Rightarrow> (Some e, dict_update result extracted_data)
                     | Inr result' \<Rightarrow> (None, result')))))"

definition process_single_cv ::
  "services \<Rightarrow> pylib \<Rightarrow> llm_client \<Rightarrow> llm \<Rightarrow> prompt_config \<Rightarrow> file_info \<Rightarrow> var list \<Rightarrow>
     prompt_config \<Rightarrow> drive_service option \<Rightarrow> bool \<Rightarrow> pydict" where
  "process_single_cv sv lib client api create_default_config fi vars pc drive use_ocr =
     (case try_block sv lib client api create_default_config fi vars pc drive use_ocr of
        (None, result) \<Rightarrow> result
      | (Some e, result) \<Rightarrow> AList.update ''error'' (VStr (exn_str e)) result)"

subsection \<open>The batch\<close>

text \<open>
  \<open>process_all_cvs\<close> reads the options of the sidebar (number inputs with minimum 1
  and a checkbox), the provider and model chosen, and two attributes of the session: the
  Drive service, and the Drive configuration from which the service can be built again
  (each \<open>None\<close> when the attribute is absent or falsy). What it calls outside the
  modelled core is a parameter: what the constructor of a client raises in the
  environment, if anything (no API key, no library), what \<open>get_drive_service\<close> yields
  for a configuration, and the order in which the tasks of the thread pool complete,
  given as the choice of the next task to complete among the pending ones. Its \<open>schema\<close>
  argument is what \<open>configure_schema\<close> returns: \<open>None\<close>, or a loaded schema,
  which holds its version and variables and is truthy.
\<close>

record options =
  opt_use_ocr :: bool
  opt_max_files :: nat
  opt_max_workers :: nat
  opt_temperature :: rat
  opt_max_tokens :: nat

record llm_config =
  cfg_provider :: string
  cfg_model :: string

record drive_config =
  dc_auth_mode :: "string option"
  dc_api_key :: "string option"

record session =
  ss_drive_service :: "drive_service option"
  ss_drive_config :: "drive_config option"

record platform =
  new_openai_client :: "openai_client \<Rightarrow> pyexn option"
  new_litellm_client :: "openai_client \<Rightarrow> pyexn option"
  get_drive_service :: "drive_config \<Rightarrow> pyexn + drive_service"
  next_completed :: "file_info list \<Rightarrow> nat"

definition create_llm_client :: "platform \<Rightarrow> llm_config \<Rightarrow> options \<Rightarrow> pyexn + llm_client" where
  "create_llm_client pf llm_config options =
     (let attributes = \<lparr>model = cfg_model llm_config, temperature = opt_temperature options,
                         max_tokens = Some (opt_max_tokens options)\<rparr>;
          made = (if cfg_provider llm_config = ''OpenAI'' then
                    (case new_openai_client pf attributes of
                       None \<Rightarrow> Inr (OpenAIClient attributes) | Some e \<Rightarrow> Inl e)
                  else
                    (case new_litellm_client pf attributes of
                       None \<Rightarrow> Inr (LiteLLMClient attributes) | Some e \<Rightarrow> Inl e))
      in case made of
           Inl (TypeError error_msg) \<Rightarrow>
             if contains ''proxies'' error_msg \<or> contains ''unexpected keyword argument'' error_msg
             then Inl (ValueError
                    (''Error de compatibilidad con la librer'' @ [CHR 0xED] @ ''a ''
                     @ cfg_provider llm_config
                     @ ''. Verifica las versiones instaladas:\<newline>  - openai: debe ser >= 1.0.0 (recomendado: 1.54.0)\<newline>  - litellm: debe ser >= 1.0.0 (recomendado: 1.29.3)\<newline>\<newline>Ejecuta: pip install --upgrade openai==1.54.0 litellm==1.29.3\<newline>\<newline>Error original: ''
                     @ error_msg))
             else Inl (TypeError error_msg)
         | other \<Rightarrow> other)"

definition selected_files :: "file_info list \<Rightarrow> options \<Rightarrow> file_info list" where
  \<comment> \<open>the files that are selected, cut to the limit of the options.\<close>
  "selected_files files options =
     (let selected = filter fi_selected files
      in if length selected > opt_max_files options
         then take (opt_max_files options) selected else selected)"

datatype batch_outcome =
    InvalidSchema
  | ClientError pyexn
  | DriveError pyexn
  | DriveUnavailable
  | Processed "pydict list"

definition batch_drive_service ::
  "platform \<Rightarrow> session \<Rightarrow> file_info list \<Rightarrow> batch_outcome + drive_service option" where
  \<comment> \<open>the Drive service for the selected files, or the early return that ends the batch
      when one of them is a Drive file and no service is to be had.\<close>
  "batch_drive_service pf ss selected =
     (if list_ex (\<lambda>f. fi_source f = ''drive'') selected then
        (case ss_drive_service ss of
           Some service \<Rightarrow> Inr (Some service)
         | None \<Rightarrow>
             (case ss_drive_config ss of
                Some config \<Rightarrow>
                  (case get_drive_service pf config of
                     Inl e \<Rightarrow> Inl (DriveError e)
                   | Inr service \<Rightarrow> Inr (Some service))
              | None \<Rightarrow> Inl DriveUnavailable))
      else Inr None)"

fun completion_order :: "(file_info list \<Rightarrow> nat) \<Rightarrow> nat \<Rightarrow> file_info list \<Rightarrow> file_info list" where
  \<comment> \<open>the next \<open>n\<close> tasks to complete among the pending ones, each named by its file.\<close>
  "completion_order pick 0 pending = []"
| "completion_order pick (Suc n) pending =
     (if pending = [] then []
      else (let i = pick pending mod length pending
            in pending ! i # completion_order pick n (take i pending @ drop (Suc i) pending)))"

definition as_completed :: "(file_info list \<Rightarrow> nat) \<Rightarrow> file_info list \<Rightarrow> file_info list" where
  \<comment> \<open>\<open>as_completed(future_to_file)\<close>, by the files of the futures: every task once,
      in the order of completion.\<close>
  "as_completed pick tasks = completion_order pick (length tasks) tasks"

definition error_result :: "file_info \<Rightarrow> pyexn \<Rightarrow> pydict" where
  \<comment> \<open>the record the batch loop builds when a task raised.\<close>
  "error_result fi e =
     [(''archivo'', VStr (fi_name fi)),
      (''fuente'', VStr (fi_source fi)),
      (''link'', VStr (case fi_link fi of None \<Rightarrow> [] | Some l \<Rightarrow> l)),
      (''error'', VStr (exn_str e))]"

fun collect_results :: "(file_info \<times> (pyexn + pydict)) list \<Rightarrow> pydict list \<Rightarrow> pydict list" where
  \<comment> \<open>the loop over the completed tasks: each is a file and what its task returned or
      raised.\<close>
  "collect_results [] results = results"
| "collect_results ((fi, Inr result) # done) results = collect_results done (results @ [result])"
| "collect_results ((fi, Inl e) # done) results =
     collect_results done (results @ [error_result fi e])"

definition process_all_cvs ::
  "platform \<Rightarrow> services \<Rightarrow> pylib \<Rightarrow> llm \<Rightarrow> prompt_config \<Rightarrow> session \<Rightarrow> file_info list \<Rightarrow>
     var list option \<Rightarrow> llm_config \<Rightarrow> options \<Rightarrow> prompt_config \<Rightarrow> pyexn + batch_outcome" where
  \<comment> \<open>\<open>Inr\<close> is how the function ends: one of its early returns, by its cause, or the
      list \<open>results\<close> after the loop, which the application stores when it is not empty.
      \<open>Inl\<close> is the exception \<open>ThreadPoolExecutor\<close> raises for no worker. A task is
      \<open>process_single_cv\<close> on its file; the tasks share nothing that any of them
      writes.\<close>
  "process_all_cvs pf sv lib api create_default_config ss files schema llm_config options pc =
     (case schema of
        None \<Rightarrow> Inr InvalidSchema
      | Some vars \<Rightarrow>
          (let selected = selected_files files options
           in case create_llm_client pf llm_config options of
                Inl e \<Rightarrow> Inr (ClientError e)
              | Inr llm_client \<Rightarrow>
                  (case batch_drive_service pf ss selected of
                     Inl early_return \<Rightarrow> Inr early_return
                   | Inr drive \<Rightarrow>
                       if opt_max_workers options = 0
                       then Inl (ValueError ''max_workers must be greater than 0'')
                       else
                         Inr (Processed
                           (collect_results
                              (map (\<lambda>fi. (fi, Inr (process_single_cv sv lib llm_client api
                                                    create_default_config fi vars pc drive
                                                    (opt_use_ocr options))))
                                 (as_completed (next_completed pf) selected))
                              [])))))"

section \<open>A concrete library, for the examples\<close>

text \<open>
  The examples evaluate the program at concrete inputs, and for that fix the library
  parameters at values that agree with the libraries on the inputs that occur:
  \<^item> \<open>float\<close> reads plain decimal numerals;
  \<^item> the JSON and YAML parsers know the texts of the examples and refuse every other
    text, with the message the parser gives for a text that is no document;
  \<^item> the field validator accepts a value that already has the annotated type (a string
    is stripped, a bound is compared) and refuses every other value, nested models and
    e-mail addresses included: whatever it accepts, pydantic accepts with the same result;
  \<^item> the JSON Schema validator checks the keyword \<open>additionalProperties\<close> only.
\<close>

definition decimal_float :: "string \<Rightarrow> pyfloat option" where
  "decimal_float s =
     (let t = py_strip s;
          negative = (t \<noteq> [] \<and> hd t = CHR ''-'');
          u = (if t \<noteq> [] \<and> (hd t = CHR ''-'' \<or> hd t = CHR ''+'') then tl t else t);
          ip = takeWhile is_digit u;
          rest = dropWhile is_digit u;
          frac = (if rest = [] then [] else tl rest);
          magnitude = of_int (decimal_val ip) + of_int (decimal_val frac) / 10 ^ length frac
      in if ip \<noteq> [] \<and> (rest = [] \<or> (hd rest = CHR ''.'' \<and> list_all is_digit frac))
         then Some (FFinite (if negative then - magnitude else magnitude))
         else None)"

definition yaml_inverted_bounds :: string where
  "yaml_inverted_bounds =
     ''version: 1\<newline>variables:\<newline>  - name: edad\<newline>    type: integer\<newline>    min: 80\<newline>    max: 18\<newline>''"

definition schema_inverted_bounds :: pyval where
  "schema_inverted_bounds =
     VDict [(''version'', VInt 1),
            (''variables'',
             VList [VDict [(''name'', VStr ''edad''), (''type'', VStr ''integer''),
                           (''min'', VInt 80), (''max'', VInt 18)]])]"

definition yaml_two_line_name :: string where
  "yaml_two_line_name =
     ''version: 1\<newline>variables:\<newline>  - name: '' @ [CHR 0x22] @ ''a'' @ [CHR 0x5C] @ ''nb'' @ [CHR 0x22]
     @ ''\<newline>    type: string\<newline>''"

definition schema_two_line_name :: pyval where
  "schema_two_line_name =
     VDict [(''version'', VInt 1),
            (''variables'',
             VList [VDict [(''name'', VStr ''a\<newline>b''), (''type'', VStr ''string'')]])]"

definition yaml_ordered_bounds :: string where
  "yaml_ordered_bounds =
     ''version: 1\<newline>variables:\<newline>  - name: edad\<newline>    type: integer\<newline>    min: 18\<newline>    max: 80\<newline>''"

definition schema_ordered_bounds :: pyval where
  "schema_ordered_bounds =
     VDict [(''version'', VInt 1),
            (''variables'',
             VList [VDict [(''name'', VStr ''edad''), (''type'', VStr ''integer''),
                           (''min'', VInt 18), (''max'', VInt 80)]])]"

definition yaml_min_word :: string where
  "yaml_min_word =
     ''version: 1\<newline>variables:\<newline>  - name: nombre\<newline>    type: string\<newline>  - name: edad\<newline>    type: integer\<newline>    min: joven\<newline>''"

definition schema_min_word :: pyval where
  "schema_min_word =
     VDict [(''version'', VInt 1),
            (''variables'',
             VList [VDict [(''name'', VStr ''nombre''), (''type'', VStr ''string'')],
                    VDict [(''name'', VStr ''edad''), (''type'', VStr ''integer''),
                           (''min'', VStr ''joven'')]])]"

definition yaml_max_word :: string where
  "yaml_max_word =
     ''version: 1\<newline>variables:\<newline>  - name: nombre\<newline>    type: string\<newline>  - name: edad\<newline>    type: integer\<newline>    min: 18\<newline>    max: mayor\<newline>''"

definition schema_max_word :: pyval where
  "schema_max_word =
     VDict [(''version'', VInt 1),
            (''variables'',
             VList [VDict [(''name'', VStr ''nombre''), (''type'', VStr ''string'')],
                    VDict [(''name'', VStr ''edad''), (''type'', VStr ''integer''),
                           (''min'', VInt 18), (''max'', VStr ''mayor'')]])]"

definition yaml_examples :: "(string \<times> pyval) list" where
  "yaml_examples =
     [(yaml_inverted_bounds, schema_inverted_bounds),
      (yaml_two_line_name, schema_two_line_name),
      (yaml_ordered_bounds, schema_ordered_bounds),
      (yaml_min_word, schema_min_word),
      (yaml_max_word, schema_max_word)]"

definition json_ana :: string where
  "json_ana = ''{'' @ [CHR 0x22] @ ''nombre'' @ [CHR 0x22] @ '': '' @ [CHR 0x22] @ ''Ana Gomez''
              @ [CHR 0x22] @ ''}''"

definition json_examples :: "(string \<times> pyval) list" where
  "json_examples =
     [(''{}'', VDict []),
      (''[]'', VList []),
      (json_ana, VDict [(''nombre'', VStr ''Ana Gomez'')])]"

fun bound_ok :: "(rat \<Rightarrow> rat \<Rightarrow> bool) \<Rightarrow> pyval option \<Rightarrow> int \<Rightarrow> bool" where
  "bound_ok rel None i = True"
| "bound_ok rel (Some b) i = (case py_num b of None \<Rightarrow> False | Some r \<Rightarrow> rel r (of_int i))"

definition mismatch :: "(string list \<times> string) list + pyval" where
  "mismatch = Inl [([], ''Input is not of the annotated type'')]"

fun exact_check :: "pytype \<Rightarrow> field_info \<Rightarrow> pyval \<Rightarrow> (string list \<times> string) list + pyval" where
  "exact_check TStr info v = (case v of VStr s \<Rightarrow> Inr (VStr (py_strip s)) | _ \<Rightarrow> mismatch)"
| "exact_check TEmailStr info v = mismatch"
| "exact_check TInt info v =
     (case v of
        VInt i \<Rightarrow>
          if \<not> bound_ok (\<le>) (fi_ge info) i
          then Inl [([], ''Input should be greater than or equal to the bound'')]
          else if \<not> bound_ok (\<ge>) (fi_le info) i
          then Inl [([], ''Input should be less than or equal to the bound'')]
          else Inr (VInt i)
      | _ \<Rightarrow> mismatch)"
| "exact_check TFloat info v = (case v of VFloat f \<Rightarrow> Inr (VFloat f) | _ \<Rightarrow> mismatch)"
| "exact_check TBool info v = (case v of VBool b \<Rightarrow> Inr (VBool b) | _ \<Rightarrow> mismatch)"
| "exact_check (TLiteral allowed) info v = (if v \<in> set allowed then Inr v else mismatch)"
| "exact_check (TList t) info v =
     (case v of
        VList xs \<Rightarrow>
          if t = TStr \<and> list_all (\<lambda>x. case x of VStr s \<Rightarrow> True | _ \<Rightarrow> False) xs
          then Inr (VList (map (\<lambda>x. case x of VStr s \<Rightarrow> VStr (py_strip s) | _ \<Rightarrow> x) xs))
          else if t = TInt \<and> list_all (\<lambda>x. case x of VInt i \<Rightarrow> True | _ \<Rightarrow> False) xs
          then Inr (VList xs)
          else mismatch
      | _ \<Rightarrow> mismatch)"
| "exact_check (TModel fs) info v = mismatch"
| "exact_check TDict info v = (case v of VDict d \<Rightarrow> Inr (VDict d) | _ \<Rightarrow> mismatch)"
| "exact_check TAny info v = Inr v"
| "exact_check (TOptional t) info v = (if v = VNone then Inr VNone else exact_check t info v)"

definition additional_properties_only :: "pyval \<Rightarrow> pyval \<Rightarrow> (string \<times> string) option" where
  "additional_properties_only instance json_schema =
     (case (instance, json_schema) of
        (VDict data, VDict js) \<Rightarrow>
          (case (map_of js ''additionalProperties'', map_of js ''properties'') of
             (Some (VBool False), Some (VDict props)) \<Rightarrow>
               (case filter (\<lambda>(k, v). map_of props k = None) data of
                  [] \<Rightarrow> None
                | (k, v) # others \<Rightarrow>
                    Some (''$'', ''Additional properties are not allowed ('' @ quoted k
                                 @ '' was unexpected)''))
           | _ \<Rightarrow> None)
      | _ \<Rightarrow> None)"

definition lib0 :: pylib where
  "lib0 =
     \<lparr>int_max_str_digits = 4300,
      float_of_str = decimal_float,
      py_repr = (\<lambda>v. ''...''),
      json_loads = (\<lambda>s. case map_of json_examples s of
                            Some v \<Rightarrow> Inr v
                          | None \<Rightarrow> Inl ''Expecting value: line 1 column 1 (char 0)''),
      yaml_safe_load = (\<lambda>s. case map_of yaml_examples s of
                                Some v \<Rightarrow> Inr v
                              | None \<Rightarrow> Inl ''could not determine a constructor''),
      field_check = exact_check,
      create_model_error = (\<lambda>fdefs. None),
      jsonschema_validate = additional_properties_only,
      empty_array_raises = True\<rparr>"

definition mk_var :: "string \<Rightarrow> string \<Rightarrow> bool \<Rightarrow> var" where
  \<comment> \<open>a variable with a name, a type and \<open>required\<close>, and no other key.\<close>
  "mk_var n t r =
     \<lparr>name = n, vtype = t, required = r, vmin = None, vmax = None, allowed_values = None,
      properties = None, format = None, description = None\<rparr>"

definition coercion_example_data :: pydict where
  "coercion_example_data =
     [(''score_general'', VStr ''8/10''), (''edad'', VInt 30),
      (''hay_foto_en_cv'', VStr [CHR ''S'', CHR 0xCD]), (''secundaria_tecnica'', VStr ''No''),
      (''edad_en_rango'', VStr ''tal vez''), (''promedio'', VStr ''ocho''),
      (''terciario_completo'', VStr ''sin datos'')]"

definition coercion_example_vars :: "var list" where
  "coercion_example_vars =
     [mk_var ''score_general'' ''integer'' True, mk_var ''edad'' ''integer'' False,
      mk_var ''hay_foto_en_cv'' ''boolean'' False, mk_var ''secundaria_tecnica'' ''boolean'' False,
      mk_var ''edad_en_rango'' ''boolean'' False, mk_var ''promedio'' ''float'' False,
      mk_var ''terciario_completo'' ''integer'' False]"

definition plain_prompt :: prompt_config where
  \<comment> \<open>a prompt configuration for the examples: a fixed system prompt, and the text as
      user prompt.\<close>
  "plain_prompt text vars = (''Responde con JSON.'', text)"

definition client0 :: openai_client where
  \<comment> \<open>a client configured with temperature 0, the lowest the application offers.\<close>
  "client0 = \<lparr>model = ''gpt-4o-mini'', temperature = 0, max_tokens = Some 2000\<rparr>"


definition record_with_unknown_key :: pydict where
  "record_with_unknown_key = [(''nombre'', VStr ''Ana Gomez''), (''hobby'', VStr ''ajedrez'')]"

definition record_with_photo_list :: pydict where
  \<comment> \<open>a validated record of a schema that declares \<open>hay_foto_en_cv\<close> as a list of
      strings.\<close>
  "record_with_photo_list =
     [(''archivo'', VStr ''cv_ana.pdf''), (''error'', VStr []),
      (''edad_en_rango'', VBool True), (''experiencia_confirmada'', VBool True),
      (''hay_foto_en_cv'', VList [VStr ''foto_carnet.jpg'', VStr ''foto_taller.jpg'']),
      (''secundaria_tecnica'', VBool True)]"

definition record_all_true :: pydict where
  "record_all_true =
     [(''nombre'', VStr ''Ana Gomez''), (''edad_en_rango'', VBool True),
      (''experiencia_confirmada'', VBool True), (''hay_foto_en_cv'', VStr ''Si''),
      (''secundaria_tecnica'', VInt 1)]"

definition two_line_vars :: "var list" where
  "two_line_vars = [mk_var ''a\<newline>b'' ''string'' False]"

definition three_vars :: "var list" where
  "three_vars =
     [mk_var ''nombre'' ''string'' True,
      (mk_var ''edad'' ''integer'' False)\<lparr>vmin := Some (VInt 18), vmax := Some (VInt 80)\<rparr>,
      (mk_var ''nivel'' ''categorical'' False)\<lparr>allowed_values := Some [VStr ''alto'', VStr ''bajo'']\<rparr>]"

definition services0 :: services where
  \<comment> \<open>readers for the examples: a file holds its text, and Docling is not installed.\<close>
  "services0 =
     \<lparr>sha1_hexdigest = (\<lambda>content. ''da39a3ee5e6b4b0d3255bfef95601890afd80709''),
      docling = (\<lambda>content mime_type. None),
      pymupdf_text = (\<lambda>content. Inr content),
      pdfplumber_text = (\<lambda>content. Inr content),
      docx_text_parts = (\<lambda>content. Inr [content]),
      normalize_text = (\<lambda>s. s),
      str_of_parsed = (\<lambda>p. case p of ParsedText t \<Rightarrow> t | ParsedDict t h n \<Rightarrow> t)\<rparr>"

definition local_pdf :: "string \<Rightarrow> string \<Rightarrow> file_info" where
  "local_pdf n content =
     \<lparr>fi_name = n, fi_source = ''local'', fi_link = None, fi_content = Some content,
      fi_file_id = None, fi_mime_type = Some ''application/pdf'', fi_selected = True\<rparr>"

definition batch_files :: "file_info list" where
  \<comment> \<open>five uploads: the third is not selected.\<close>
  "batch_files =
     [local_pdf ''cv_1.pdf'' ''cv uno'', local_pdf ''cv_2.pdf'' ''cv dos'',
      (local_pdf ''cv_x.pdf'' ''cv equis'')\<lparr>fi_selected := False\<rparr>,
      local_pdf ''cv_3.pdf'' ''cv tres'', local_pdf ''cv_4.pdf'' ''cv cuatro'']"

definition batch_of_three :: "file_info list" where
  \<comment> \<open>the files of \<open>batch_files\<close> that are processed under a limit of three.\<close>
  "batch_of_three =
     [local_pdf ''cv_1.pdf'' ''cv uno'', local_pdf ''cv_2.pdf'' ''cv dos'',
      local_pdf ''cv_3.pdf'' ''cv tres'']"

definition provider_fails_on :: "string \<Rightarrow> llm" where
  \<comment> \<open>a provider that raises for the requests about one document and answers the others.\<close>
  "provider_fails_on marker calls req =
     (if contains marker (req_user req) then Inl ''ProviderError: servicio no disponible''
      else Inr json_ana)"

definition options0 :: options where
  "options0 =
     \<lparr>opt_use_ocr = False, opt_max_files = 3, opt_max_workers = 5, opt_temperature = 0,
      opt_max_tokens = 2000\<rparr>"

definition llm_config0 :: llm_config where
  "llm_config0 = \<lparr>cfg_provider = ''OpenAI'', cfg_model = ''gpt-4o-mini''\<rparr>"

definition session0 :: session where
  "session0 = \<lparr>ss_drive_service = None, ss_drive_config = None\<rparr>"

definition platform0 :: platform where
  \<comment> \<open>an environment in which the clients can be built, Drive cannot be reached, and of the
      pending tasks the second completes first.\<close>
  "platform0 =
     \<lparr>new_openai_client = (\<lambda>attributes. None),
      new_litellm_client = (\<lambda>attributes. None),
      get_drive_service = (\<lambda>config. Inl (ValueError ''No se pudo obtener credenciales OAuth.'')),
      next_completed = (\<lambda>pending. 1)\<rparr>"

definition record_ana :: "string \<Rightarrow> pydict" where
  "record_ana n =
     [(''archivo'', VStr n), (''fuente'', VStr ''local''), (''link'', VStr []),
      (''error'', VStr []), (''nombre'', VStr ''Ana Gomez''), (''preaprobado'', VBool False)]"

definition batch_results :: "pydict list" where
  \<comment> \<open>the records of the three files, in the order in which their tasks complete.\<close>
  "batch_results =
     [[(''archivo'', VStr ''cv_2.pdf''), (''fuente'', VStr ''local''), (''link'', VStr []),
       (''error'', VStr ''Error llamando a OpenAI API: ProviderError: servicio no disponible'')],
      record_ana ''cv_3.pdf'',
      record_ana ''cv_1.pdf'']"

section \<open>Properties of the coercion pass\<close>

lemma map_of_map_items:
  "map_of (map (\<lambda>(key, v). (key, f key v)) data) k = map_option (f k) (map_of data k)"
  by (induction data) auto

lemma preprocess_lookup:
  assumes "map_of data k = Some v" and "type_map vars k = Some ty"
  shows "map_of (preprocess_data lib data vars) k =
           Some (if v = VNone then v else coerce_value lib ty v)"
  using assms by (simp add: preprocess_data_def map_of_map_items preprocess_value_def)

lemma preprocess_keys: "map fst (preprocess_data lib data vars) = map fst data"
  by (induction data) (auto simp: preprocess_data_def)

lemma py_int_short: "length ds \<le> 1 \<Longrightarrow> py_int lib ds = Some (decimal_val ds)"
  unfolding py_int_def by auto

lemma coerce_integer_8_of_10: "coerce_integer lib ''8/10'' = VInt 8"
proof -
  have "re_search_digits ''8/10'' = Some ''8''"
    by (simp add: re_search_digits_def is_digit_def)
  then show ?thesis
    by (simp add: coerce_integer_def py_int_short decimal_val_def digit_val_def)
qed

lemma digit_val_nonneg: "is_digit c \<Longrightarrow> 0 \<le> digit_val c"
  by (simp add: is_digit_def digit_val_def Let_def)

lemma foldl_digits_nonneg:
  "0 \<le> a \<Longrightarrow> \<forall>c\<in>set ds. is_digit c \<Longrightarrow> 0 \<le> foldl (\<lambda>acc c. 10 * acc + digit_val c) a ds"
proof (induction ds arbitrary: a)
  case Nil
  then show ?case by simp
next
  case (Cons c ds)
  have "0 \<le> 10 * a + digit_val c"
    using Cons.prems digit_val_nonneg[of c] by simp
  then show ?case using Cons by simp
qed

lemma re_search_digits_digits: "re_search_digits s = Some ds \<Longrightarrow> \<forall>c\<in>set ds. is_digit c"
  by (auto simp: re_search_digits_def Let_def split: if_splits dest: set_takeWhileD)

lemma coerce_integer_cases:
  "coerce_integer lib s = VNone \<or> (\<exists>n\<ge>0. coerce_integer lib s = VInt n)"
proof (cases "re_search_digits s")
  case None
  then show ?thesis by (simp add: coerce_integer_def)
next
  case (Some ds)
  have "0 \<le> decimal_val ds"
    unfolding decimal_val_def
    using re_search_digits_digits[OF Some] by (intro foldl_digits_nonneg) simp_all
  then show ?thesis using Some by (simp add: coerce_integer_def py_int_def)
qed

lemma re_search_digits_run:
  assumes "ds \<noteq> []" and "\<forall>c\<in>set pre. \<not> is_digit c" and "\<forall>c\<in>set ds. is_digit c"
    and "post = [] \<or> \<not> is_digit (hd post)"
  shows "re_search_digits (pre @ ds @ post) = Some ds"
proof -
  obtain d ds' where ds: "ds = d # ds'"
    using assms(1) by (cases ds) auto
  have d: "is_digit d"
    using assms(3) ds by simp
  have "dropWhile (\<lambda>c. \<not> is_digit c) (pre @ ds @ post) = ds @ post"
    using assms(2) d ds by (simp add: dropWhile_append3)
  moreover have "takeWhile is_digit (ds @ post) = ds"
  proof (cases post)
    case Nil
    then show ?thesis using assms(3) by simp
  next
    case (Cons p ps)
    then have "\<not> is_digit p" using assms(4) by simp
    then show ?thesis using assms(3) Cons by (simp add: takeWhile_tail)
  qed
  ultimately show ?thesis using ds by (simp add: re_search_digits_def)
qed

text \<open>
  C3. The coercion pass, at a key of the record that the schema declares: a value that
  is not a string, or whose declared kind is none of integer, float and boolean, stays as
  it is (this covers every value already of the declared kind: an int for integer, a float
  for float, a bool for boolean, a string for string or categorical); the string
  \<open>8/10\<close> under an integer field becomes the integer 8; under a boolean field a
  string that lowers and strips to the accented yes becomes true, one that lowers and
  strips to \<open>no\<close> becomes false; a string with no digit under an integer field, a
  string that \<open>float\<close> refuses under a float field, and a string outside both
  vocabularies under a boolean field become null. The pass has no failing branch: the
  function returns a record for every input.
\<close>

theorem preprocess_data_coercion:
  assumes "map_of data key = Some v" and "type_map vars key = Some ty"
  shows "(((\<forall>s. v \<noteq> VStr s) \<or> ty \<notin> {''integer'', ''float'', ''boolean''}) \<longrightarrow>
            map_of (preprocess_data lib data vars) key = Some v)
       \<and> (ty = ''integer'' \<and> v = VStr ''8/10'' \<longrightarrow>
            map_of (preprocess_data lib data vars) key = Some (VInt 8))
       \<and> (\<forall>s. ty = ''boolean'' \<and> v = VStr s \<and> py_strip (py_lower s) = [CHR ''s'', CHR 0xED] \<longrightarrow>
            map_of (preprocess_data lib data vars) key = Some (VBool True))
       \<and> (\<forall>s. ty = ''boolean'' \<and> v = VStr s \<and> py_strip (py_lower s) = ''no'' \<longrightarrow>
            map_of (preprocess_data lib data vars) key = Some (VBool False))
       \<and> (\<forall>s. ty = ''integer'' \<and> v = VStr s \<and> (\<forall>c\<in>set s. \<not> is_digit c) \<longrightarrow>
            map_of (preprocess_data lib data vars) key = Some VNone)
       \<and> (\<forall>s. ty = ''float'' \<and> v = VStr s \<and> float_of_str lib s = None \<longrightarrow>
            map_of (preprocess_data lib data vars) key = Some VNone)
       \<and> (\<forall>s. ty = ''boolean'' \<and> v = VStr s
              \<and> py_strip (py_lower s) \<notin> set truthy_tokens \<union> set falsy_tokens \<longrightarrow>
            map_of (preprocess_data lib data vars) key = Some VNone)
       \<and> map fst (preprocess_data lib data vars) = map fst data"
proof -
  note L = preprocess_lookup[OF assms, of lib]
  have a: "((\<forall>s. v \<noteq> VStr s) \<or> ty \<notin> {''integer'', ''float'', ''boolean''}) \<longrightarrow>
            map_of (preprocess_data lib data vars) key = Some v"
    unfolding L by (cases v) auto
  have b: "ty = ''integer'' \<and> v = VStr ''8/10'' \<longrightarrow>
            map_of (preprocess_data lib data vars) key = Some (VInt 8)"
    unfolding L by (simp add: coerce_integer_8_of_10)
  have c: "\<forall>s. ty = ''boolean'' \<and> v = VStr s \<and> py_strip (py_lower s) = [CHR ''s'', CHR 0xED] \<longrightarrow>
            map_of (preprocess_data lib data vars) key = Some (VBool True)"
    unfolding L by (simp add: coerce_boolean_def truthy_tokens_def)
  have d: "\<forall>s. ty = ''boolean'' \<and> v = VStr s \<and> py_strip (py_lower s) = ''no'' \<longrightarrow>
            map_of (preprocess_data lib data vars) key = Some (VBool False)"
    unfolding L by (simp add: coerce_boolean_def truthy_tokens_def falsy_tokens_def)
  have e: "\<forall>s. ty = ''integer'' \<and> v = VStr s \<and> (\<forall>c\<in>set s. \<not> is_digit c) \<longrightarrow>
            map_of (preprocess_data lib data vars) key = Some VNone"
    unfolding L by (simp add: coerce_integer_def re_search_digits_def)
  have f: "\<forall>s. ty = ''float'' \<and> v = VStr s \<and> float_of_str lib s = None \<longrightarrow>
            map_of (preprocess_data lib data vars) key = Some VNone"
    unfolding L by (simp add: coerce_float_def)
  have g: "\<forall>s. ty = ''boolean'' \<and> v = VStr s
              \<and> py_strip (py_lower s) \<notin> set truthy_tokens \<union> set falsy_tokens \<longrightarrow>
            map_of (preprocess_data lib data vars) key = Some VNone"
    unfolding L by (simp add: coerce_boolean_def)
  from a b c d e f g preprocess_keys[of lib data vars] show ?thesis by blast
qed


theorem preprocess_data_coercion_witness:
  "map_of (preprocess_data lib0 coercion_example_data coercion_example_vars) ''score_general''
     = Some (VInt 8)
   \<and> map_of (preprocess_data lib0 coercion_example_data coercion_example_vars) ''edad''
     = Some (VInt 30)
   \<and> map_of (preprocess_data lib0 coercion_example_data coercion_example_vars) ''hay_foto_en_cv''
     = Some (VBool True)
   \<and> map_of (preprocess_data lib0 coercion_example_data coercion_example_vars) ''secundaria_tecnica''
     = Some (VBool False)
   \<and> map_of (preprocess_data lib0 coercion_example_data coercion_example_vars) ''edad_en_rango''
     = Some VNone
   \<and> map_of (preprocess_data lib0 coercion_example_data coercion_example_vars) ''promedio''
     = Some VNone
   \<and> map_of (preprocess_data lib0 coercion_example_data coercion_example_vars) ''terciario_completo''
     = Some VNone"
proof -
  let ?data = coercion_example_data
  let ?vars = coercion_example_vars
  let ?out = "preprocess_data lib0 ?data ?vars"
  have tm: "type_map ?vars ''score_general'' = Some ''integer''"
    "type_map ?vars ''edad'' = Some ''integer''"
    "type_map ?vars ''hay_foto_en_cv'' = Some ''boolean''"
    "type_map ?vars ''secundaria_tecnica'' = Some ''boolean''"
    "type_map ?vars ''edad_en_rango'' = Some ''boolean''"
    "type_map ?vars ''promedio'' = Some ''float''"
    "type_map ?vars ''terciario_completo'' = Some ''integer''"
    by (simp_all add: type_map_def mk_var_def coercion_example_vars_def)
  have dt: "map_of ?data ''score_general'' = Some (VStr ''8/10'')"
    "map_of ?data ''edad'' = Some (VInt 30)"
    "map_of ?data ''hay_foto_en_cv'' = Some (VStr [CHR ''S'', CHR 0xCD])"
    "map_of ?data ''secundaria_tecnica'' = Some (VStr ''No'')"
    "map_of ?data ''edad_en_rango'' = Some (VStr ''tal vez'')"
    "map_of ?data ''promedio'' = Some (VStr ''ocho'')"
    "map_of ?data ''terciario_completo'' = Some (VStr ''sin datos'')"
    by (simp_all add: coercion_example_data_def)
  have low: "py_strip (py_lower [CHR ''S'', CHR 0xCD]) = [CHR ''s'', CHR 0xED]"
    "py_strip (py_lower ''No'') = ''no''"
    "py_strip (py_lower ''tal vez'') = ''tal vez''"
    by code_simp+
  have fl: "float_of_str lib0 ''ocho'' = None"
    by code_simp
  have nd: "\<forall>c\<in>set ''sin datos''. \<not> is_digit c"
    by (simp add: is_digit_def)
  have 1: "map_of ?out ''score_general'' = Some (VInt 8)"
    using preprocess_data_coercion[OF dt(1) tm(1), of lib0] by simp
  have 2: "map_of ?out ''edad'' = Some (VInt 30)"
    using preprocess_data_coercion[OF dt(2) tm(2), of lib0] by simp
  have 3: "map_of ?out ''hay_foto_en_cv'' = Some (VBool True)"
    using preprocess_data_coercion[OF dt(3) tm(3), of lib0] low(1) by simp
  have 4: "map_of ?out ''secundaria_tecnica'' = Some (VBool False)"
    using preprocess_data_coercion[OF dt(4) tm(4), of lib0] low(2) by simp
  have 5: "map_of ?out ''edad_en_rango'' = Some VNone"
    using preprocess_data_coercion[OF dt(5) tm(5), of lib0] low(3)
    by (simp add: truthy_tokens_def falsy_tokens_def)
  have 6: "map_of ?out ''promedio'' = Some VNone"
    using preprocess_data_coercion[OF dt(6) tm(6), of lib0] fl by simp
  have 7: "map_of ?out ''terciario_completo'' = Some VNone"
    using preprocess_data_coercion[OF dt(7) tm(7), of lib0] nd by simp
  from 1 2 3 4 5 6 7 show ?thesis by simp
qed

text \<open>
  C9. Under an integer field, a string value coerces to null or to a non-negative
  integer: the value is that of the leftmost unbroken run of decimal digits (when the
  interpreter's limit on digit strings admits its length), whatever stands before the
  run, a minus sign included; the string \<open>-5\<close> coerces to 5.
\<close>

theorem preprocess_integer_nonnegative:
  assumes "map_of data key = Some (VStr s)" and "type_map vars key = Some ''integer''"
  shows "\<exists>r. map_of (preprocess_data lib data vars) key = Some r
           \<and> (r = VNone \<or> (\<exists>n\<ge>0. r = VInt n))
           \<and> (\<forall>pre ds post.
                 s = pre @ ds @ post \<and> ds \<noteq> [] \<and> (\<forall>c\<in>set pre. \<not> is_digit c)
                 \<and> (\<forall>c\<in>set ds. is_digit c) \<and> (post = [] \<or> \<not> is_digit (hd post))
                 \<and> \<not> (0 < int_max_str_digits lib \<and> int_max_str_digits lib < length ds)
                 \<longrightarrow> r = VInt (decimal_val ds))
           \<and> (s = ''-5'' \<longrightarrow> r = VInt 5)"
proof -
  have L: "map_of (preprocess_data lib data vars) key = Some (coerce_integer lib s)"
    using preprocess_lookup[OF assms, of lib] by simp
  have run: "\<forall>pre ds post.
                 s = pre @ ds @ post \<and> ds \<noteq> [] \<and> (\<forall>c\<in>set pre. \<not> is_digit c)
                 \<and> (\<forall>c\<in>set ds. is_digit c) \<and> (post = [] \<or> \<not> is_digit (hd post))
                 \<and> \<not> (0 < int_max_str_digits lib \<and> int_max_str_digits lib < length ds)
                 \<longrightarrow> coerce_integer lib s = VInt (decimal_val ds)"
    by (auto simp: coerce_integer_def re_search_digits_run py_int_def)
  have "re_search_digits ''-5'' = Some ''5''"
    by (simp add: re_search_digits_def is_digit_def)
  then have five: "s = ''-5'' \<longrightarrow> coerce_integer lib s = VInt 5"
    by (simp add: coerce_integer_def py_int_short decimal_val_def digit_val_def)
  show ?thesis
    using L coerce_integer_cases[of lib s] run five by blast
qed

theorem preprocess_integer_nonnegative_witness:
  "map_of [(''edad'', VStr ''-5'')] ''edad'' = Some (VStr ''-5'')
   \<and> type_map [mk_var ''edad'' ''integer'' False] ''edad'' = Some ''integer''
   \<and> ''-5'' = ''-'' @ ''5'' @ []
   \<and> map_of (preprocess_data lib0 [(''edad'', VStr ''-5'')] [mk_var ''edad'' ''integer'' False])
        ''edad'' = Some (VInt 5)"
  using preprocess_integer_nonnegative[of "[(''edad'', VStr ''-5'')]" "''edad''" "''-5''"
      "[mk_var ''edad'' ''integer'' False]" lib0]
  by (auto simp: type_map_def mk_var_def)

section \<open>Properties of schema loading\<close>


















section \<open>Properties of the extraction client\<close>




text \<open>
  C7, as the code has it. The request of a correction attempt carries the temperature
  0.1, a constant of the source: it is the same for every client, and the whole request
  is the same for two clients that differ in their temperature only; it is the one request
  \<open>_retry_with_correction\<close> makes. The first request of \<open>extract_profile\<close>
  carries the temperature of the client.
\<close>

theorem correction_temperature_fixed:
  "req_temperature (correction_request c dflt cp vars cvtext pc) = 1 / 10
   \<and> correction_request (c\<lparr>temperature := t\<rparr>) dflt cp vars cvtext pc
       = correction_request c dflt cp vars cvtext pc
   \<and> snd (retry_with_correction c lib api dflt cp vars n cvtext pc calls)
       = calls @ [correction_request c dflt cp vars cvtext pc]
   \<and> snd (retry_with_correction (c\<lparr>temperature := t\<rparr>) lib api dflt cp vars n cvtext pc calls)
       = calls @ [correction_request c dflt cp vars cvtext pc]
   \<and> req_temperature (extraction_request c dflt cvtext vars pc) = temperature c"
proof -
  have 1: "req_temperature (correction_request c dflt cp vars cvtext pc) = 1 / 10"
    by (simp add: correction_request_def split: prod.split)
  have 2: "correction_request (c\<lparr>temperature := t\<rparr>) dflt cp vars cvtext pc
       = correction_request c dflt cp vars cvtext pc"
    by (simp add: correction_request_def split: prod.split)
  have 3: "snd (retry_with_correction c' lib api dflt cp vars n cvtext pc calls)
       = calls @ [correction_request c' dflt cp vars cvtext pc]" for c'
    by (simp add: retry_with_correction_def Let_def split: sum.split)
  have 4: "req_temperature (extraction_request c dflt cvtext vars pc) = temperature c"
    by (simp add: extraction_request_def split: prod.split)
  show ?thesis
    using 1 2 3[of c] 3[of "c\<lparr>temperature := t\<rparr>"] 4 by simp
qed

text \<open>
  The claim as stated fails: 0.1 is not the most deterministic setting. A client built
  with temperature 0 makes its correction call at 0.1, above its own setting.
\<close>

theorem correction_temperature_counterexample:
  "temperature client0 = 0
   \<and> req_temperature (correction_request client0 plain_prompt ''corrige'' [] ''CV de Ana'' None)
       = 1 / 10
   \<and> temperature client0
       < req_temperature (correction_request client0 plain_prompt ''corrige'' [] ''CV de Ana'' None)"
  by (simp add: client0_def correction_request_def split: prod.split)

section \<open>Properties of the response validation\<close>

lemma update_key_set: "fst ` set (AList.update k v al) = insert k (fst ` set al)"
proof -
  have "set (map fst (AList.update k v al)) = insert k (set (map fst al))"
    by (auto simp: AList.update_keys)
  then show ?thesis by simp
qed

lemma model_fields_names:
  "model_fields vars acc = Inr fdefs \<Longrightarrow> fst ` set fdefs \<subseteq> fst ` set acc \<union> name ` set vars"
proof (induction vars arbitrary: acc)
  case Nil
  then show ?case by simp
next
  case (Cons v vs)
  from Cons.prems obtain fd where fd: "model_field v = Inr fd"
    and rest: "model_fields vs (AList.update (name v) fd acc) = Inr fdefs"
    by (auto split: sum.splits)
  show ?case using Cons.IH[OF rest] update_key_set[of "name v" fd acc] by auto
qed

lemma validate_field_extra:
  assumes "fst f \<noteq> k"
  shows "validate_field lib cfg (data @ [(k, v)]) f = validate_field lib cfg data f"
proof -
  obtain nm ty info where f: "f = (nm, ty, info)" by (cases f) auto
  have "map_of (data @ [(k, v)]) nm = map_of data nm"
    using assms f by (simp add: map_add_def split: option.split)
  then show ?thesis using f by (simp add: validate_field_def)
qed

lemma model_validate_extra:
  assumes "k \<notin> fst ` set fdefs" and "extra cfg = None"
  shows "model_validate lib cfg fdefs (data @ [(k, v)]) = model_validate lib cfg fdefs data"
proof -
  have "\<And>f. f \<in> set fdefs \<Longrightarrow> fst f \<noteq> k"
    using assms(1) by auto
  then have eq: "map (\<lambda>f. (fst f, validate_field lib cfg (data @ [(k, v)]) f)) fdefs
      = map (\<lambda>f. (fst f, validate_field lib cfg data f)) fdefs"
    by (simp add: validate_field_extra)
  show ?thesis
    unfolding model_validate_def eq assms(2) by simp
qed

lemma type_map_undeclared: "k \<notin> name ` set vars \<Longrightarrow> type_map vars k = None"
  by (auto simp: type_map_def map_of_eq_None_iff image_iff)

lemma validate_with_pydantic_extra:
  assumes "k \<notin> name ` set vars"
  shows "validate_with_pydantic lib (data @ [(k, v)]) vars = validate_with_pydantic lib data vars"
proof (cases "model_fields vars []")
  case (Inl e)
  then show ?thesis by (simp add: validate_with_pydantic_def create_pydantic_model_def Let_def)
next
  case (Inr fdefs)
  then have k: "k \<notin> fst ` set fdefs" using model_fields_names[OF Inr] assms by auto
  have pp: "preprocess_data lib (data @ [(k, v)]) vars = preprocess_data lib data vars @ [(k, v)]"
    using type_map_undeclared[OF assms] by (simp add: preprocess_data_def preprocess_value_def)
  show ?thesis
    using Inr model_validate_extra[OF k, of cv_model_config lib "preprocess_data lib data vars" v]
    by (simp add: validate_with_pydantic_def create_pydantic_model_def Let_def pp cv_model_config_def
        split: option.split)
qed

lemma additional_properties_false:
  "schema_to_json_schema vars = Inr js \<Longrightarrow> map_of js ''additionalProperties'' = Some (VBool False)"
  by (auto simp: schema_to_json_schema_def split: sum.splits prod.splits)

text \<open>
  C2. The claim does not hold of the code. \<open>validate_extraction\<close> validates with
  the pydantic model, whose configuration leaves \<open>extra\<close> unset: a key the schema
  does not declare is dropped and the record is accepted. Here the schema declares the
  required string \<open>nombre\<close>, and the record holds a valid \<open>nombre\<close> and the
  undeclared key \<open>hobby\<close>: the result is valid, without \<open>hobby\<close>. The other
  path of the same function, the JSON Schema one, builds its schema with
  \<open>additionalProperties\<close> false (lemma \<open>additional_properties_false\<close>) and refuses
  the same record. Lemma \<open>validate_with_pydantic_extra\<close> shows the defect for every
  schema, record and library behaviour: an undeclared key added to a record never changes
  the result of the pydantic path.
\<close>

theorem validate_extraction_unknown_key_accepted:
  "validate_extraction lib0 record_with_unknown_key [mk_var ''nombre'' ''string'' True] True
     = Inr [(''nombre'', VStr ''Ana Gomez'')]
   \<and> validate_extraction lib0 record_with_unknown_key [mk_var ''nombre'' ''string'' True] False
     = Inl (''Error de validaci'' @ [CHR 0xF3] @ ''n en '' @ quoted ''$'' @ '': ''
            @ ''Additional properties are not allowed ('' @ quoted ''hobby''
            @ '' was unexpected)'')"
  by code_simp

section \<open>Properties of the derived fields\<close>

lemma calculate_derived_fields_result:
  assumes "calculate_derived_fields lib r = Inr r'"
  shows "\<exists>a b c d. to_bool lib (get_or_false r ''edad_en_rango'') = Inr a
          \<and> experience_signal lib r = Inr b
          \<and> to_bool lib (get_or_false r ''hay_foto_en_cv'') = Inr c
          \<and> to_bool lib (get_or_false r ''secundaria_tecnica'') = Inr d
          \<and> r' = AList.update ''preaprobado'' (VBool (a \<and> b \<and> c \<and> d)) r"
  using assms by (auto simp: calculate_derived_fields_def split: sum.splits)

text \<open>
  The roll-up is the conjunction of the four normalised signals whenever each of them
  normalises: true when all four are true, false as soon as one is false.
\<close>

lemma calculate_derived_fields_and:
  assumes "to_bool lib (get_or_false r ''edad_en_rango'') = Inr a"
    and "experience_signal lib r = Inr b"
    and "to_bool lib (get_or_false r ''hay_foto_en_cv'') = Inr c"
    and "to_bool lib (get_or_false r ''secundaria_tecnica'') = Inr d"
  shows "calculate_derived_fields lib r
           = Inr (AList.update ''preaprobado'' (VBool (a \<and> b \<and> c \<and> d)) r)"
  using assms by (simp add: calculate_derived_fields_def)

lemma to_bool_not_list: "\<not> is_list v \<Longrightarrow> \<exists>b. to_bool lib v = Inr b"
  by (cases v) auto

lemma get_or_false_not_list:
  "(\<forall>v. map_of r k = Some v \<longrightarrow> \<not> is_list v) \<Longrightarrow> \<not> is_list (get_or_false r k)"
  by (simp add: get_or_false_def split: option.split)

text \<open>
  The function returns for every record in which none of the values it consults is a
  list.
\<close>

lemma calculate_derived_fields_returns:
  assumes "\<forall>k v. map_of r k = Some v \<longrightarrow> \<not> is_list v"
  shows "\<exists>r'. calculate_derived_fields lib r = Inr r'"
proof -
  have nl: "\<not> is_list (get_or_false r k)" for k
    using assms by (intro get_or_false_not_list) blast
  obtain a where a: "to_bool lib (get_or_false r ''edad_en_rango'') = Inr a"
    using to_bool_not_list[OF nl] by blast
  obtain c where c: "to_bool lib (get_or_false r ''hay_foto_en_cv'') = Inr c"
    using to_bool_not_list[OF nl] by blast
  obtain d where d: "to_bool lib (get_or_false r ''secundaria_tecnica'') = Inr d"
    using to_bool_not_list[OF nl] by blast
  have "\<exists>b. experience_signal lib r = Inr b"
  proof (cases "find (\<lambda>field. map_of r field \<noteq> None) possible_exp_fields")
    case None
    then show ?thesis by (auto simp: experience_signal_def)
  next
    case (Some field)
    then show ?thesis
      using to_bool_not_list[OF nl, of lib field] by (auto simp: experience_signal_def)
  qed
  then obtain b where b: "experience_signal lib r = Inr b"
    by blast
  show ?thesis
    using calculate_derived_fields_and[OF a b c d] by blast
qed

text \<open>
  C4. The claim does not hold of the code: the function is not total. \<open>to_bool\<close>
  tests \<open>pd.isna(value)\<close> for truth, and for a list of two or more elements that is an
  array whose truth value numpy refuses with \<open>ValueError\<close>. A record in which one of
  the four consulted fields holds such a list (here \<open>hay_foto_en_cv\<close>, as a schema that
  declares it a list of strings produces) makes \<open>calculate_derived_fields\<close> raise, and
  no \<open>preaprobado\<close> is written. The last line of \<open>to_bool\<close>, \<open>return False\<close>, shows
  what was meant for such a value. Where the signals normalise, the roll-up is their
  conjunction (lemma \<open>calculate_derived_fields_and\<close>).
\<close>

theorem calculate_derived_fields_list_signal_raises:
  "calculate_derived_fields lib0 record_with_photo_list
     = Inl (ValueError
         ''The truth value of an array with more than one element is ambiguous. Use a.any() or a.all()'')"
  by code_simp

text \<open>
  C10. When \<open>calculate_derived_fields\<close> returns, the record it returns agrees with its
  argument at every key other than \<open>preaprobado\<close>; its keys are those of the argument
  and \<open>preaprobado\<close>, in the order of the argument, \<open>preaprobado\<close> being appended
  when it is new; and \<open>preaprobado\<close> holds a boolean. (When the function raises, it
  has written nothing: the assignment to \<open>preaprobado\<close> is its last statement.)
\<close>

theorem calculate_derived_fields_frame:
  assumes "calculate_derived_fields lib r = Inr r'"
  shows "(\<forall>k. k \<noteq> ''preaprobado'' \<longrightarrow> map_of r' k = map_of r k)
       \<and> fst ` set r' = insert ''preaprobado'' (fst ` set r)
       \<and> (\<exists>b. map_of r' ''preaprobado'' = Some (VBool b))
       \<and> map fst r' = (if ''preaprobado'' \<in> fst ` set r then map fst r
                         else map fst r @ [''preaprobado''])"
proof -
  from calculate_derived_fields_result[OF assms] obtain v where
    r': "r' = AList.update ''preaprobado'' (VBool v) r"
    by blast
  show ?thesis
    unfolding r' by (simp add: AList.update_conv' update_key_set AList.update_keys)
qed

theorem calculate_derived_fields_frame_witness:
  "calculate_derived_fields lib0 record_all_true
     = Inr (record_all_true @ [(''preaprobado'', VBool True)])
   \<and> map_of (record_all_true @ [(''preaprobado'', VBool True)]) ''nombre''
       = map_of record_all_true ''nombre''
   \<and> map_of (record_all_true @ [(''preaprobado'', VBool True)]) ''hay_foto_en_cv''
       = map_of record_all_true ''hay_foto_en_cv''
   \<and> map fst (record_all_true @ [(''preaprobado'', VBool True)])
       = map fst record_all_true @ [''preaprobado'']"
proof -
  have run: "calculate_derived_fields lib0 record_all_true
     = Inr (record_all_true @ [(''preaprobado'', VBool True)])"
    by code_simp
  have new: "''preaprobado'' \<notin> fst ` set record_all_true"
    by (simp add: record_all_true_def)
  from calculate_derived_fields_frame[OF run] new run show ?thesis
    by simp
qed

section \<open>The rendered schema and its field names\<close>

lemma split_on_no_sep: "c \<notin> set l \<Longrightarrow> split_on c l = [l]"
  by (induction l) auto

lemma split_on_append: "c \<notin> set l \<Longrightarrow> split_on c (l @ c # r) = l # split_on c r"
  by (induction l) auto

lemma split_on_join:
  "ls \<noteq> [] \<Longrightarrow> \<forall>l\<in>set ls. c \<notin> set l \<Longrightarrow> split_on c (join [c] ls) = ls"
proof (induction ls)
  case Nil
  then show ?case by simp
next
  case (Cons l ls)
  show ?case
  proof (cases ls)
    case Nil
    then show ?thesis using Cons.prems by (simp add: split_on_no_sep)
  next
    case (Cons q ps)
    then show ?thesis using Cons.IH Cons.prems by (simp add: split_on_append)
  qed
qed

lemma set_join: "set (join sep ls) \<subseteq> set sep \<union> \<Union> (set ` set ls)"
  by (induction sep ls rule: join.induct) auto

lemma join_no_newline:
  assumes "c \<notin> set sep" and "\<forall>l\<in>set ls. c \<notin> set l"
  shows "c \<notin> set (join sep ls)"
  using set_join[of sep ls] assms by auto

lemma field_lines_all2:
  "field_lines lib vars = Inr ls \<longleftrightarrow> list_all2 (\<lambda>v l. field_line lib v = Inr l) vars ls"
proof (induction vars arbitrary: ls)
  case Nil
  then show ?case by auto
next
  case (Cons v vs)
  show ?case
  proof (cases ls)
    case Nil
    then show ?thesis by (auto split: sum.splits)
  next
    case (Cons l ls')
    then show ?thesis using Cons.IH[of ls'] by (auto split: sum.splits)
  qed
qed

lemma line_field_name_field:
  assumes "CHR 0x22 \<notin> set n"
  shows "line_field_name (''  '' @ [CHR 0x22] @ n @ [CHR 0x22] @ r) = Some n"
proof -
  have "takeWhile (\<lambda>c. c \<noteq> CHR 0x22) (n @ CHR 0x22 # r) = n"
    using assms by (induction n) auto
  then show ?thesis by (simp add: line_field_name_def startswith_def)
qed

lemma range_info_no_newline:
  assumes "case vmin v of None \<Rightarrow> True | Some b \<Rightarrow> CHR ''\<newline>'' \<notin> set (py_str lib b)"
    and "case vmax v of None \<Rightarrow> True | Some b \<Rightarrow> CHR ''\<newline>'' \<notin> set (py_str lib b)"
  shows "\<forall>l\<in>set (range_info lib v). CHR ''\<newline>'' \<notin> set l"
  using assms by (auto simp: range_info_def split: option.splits)

lemma type_description_one_line:
  assumes "one_line_variable lib v"
  shows "\<exists>d. type_description lib v = Inr d \<and> CHR ''\<newline>'' \<notin> set d"
proof -
  have nl: "CHR ''\<newline>'' \<notin> set '', ''" by simp
  consider (int) "vtype v = ''integer''" | (cat) "vtype v = ''categorical''"
    | (other) "vtype v \<noteq> ''integer''" "vtype v \<noteq> ''categorical''" by blast
  then show ?thesis
  proof cases
    case int
    with assms have
      "case vmin v of None \<Rightarrow> True | Some b \<Rightarrow> CHR ''\<newline>'' \<notin> set (py_str lib b)"
      "case vmax v of None \<Rightarrow> True | Some b \<Rightarrow> CHR ''\<newline>'' \<notin> set (py_str lib b)"
      by (simp_all add: one_line_variable_def)
    then have "\<forall>l\<in>set (range_info lib v). CHR ''\<newline>'' \<notin> set l"
      by (rule range_info_no_newline)
    then have "CHR ''\<newline>'' \<notin> set (join '', '' (range_info lib v))"
      using nl by (rule join_no_newline[rotated])
    then show ?thesis using int by (simp add: type_description_def)
  next
    case cat
    with assms obtain allowed where a: "allowed_values v = Some allowed"
      and b: "list_all (\<lambda>a. CHR ''\<newline>'' \<notin> set (py_str lib a)) allowed"
      by (auto simp: one_line_variable_def split: option.splits)
    from b have "\<forall>l\<in>set (map (\<lambda>a. dquoted (py_str lib a)) allowed). CHR ''\<newline>'' \<notin> set l"
      by (auto simp: list_all_iff dquoted_def)
    then have "CHR ''\<newline>'' \<notin> set (join '', '' (map (\<lambda>a. dquoted (py_str lib a)) allowed))"
      using nl by (rule join_no_newline[rotated])
    then show ?thesis using cat a by (simp add: type_description_def)
  next
    case other
    moreover from assms have "CHR ''\<newline>'' \<notin> set (vtype v)"
      by (simp add: one_line_variable_def)
    ultimately show ?thesis by (simp add: type_description_def dquoted_def)
  qed
qed

lemma field_line_one_line:
  assumes "one_line_variable lib v"
  shows "\<exists>r. field_line lib v = Inr (''  '' @ [CHR 0x22] @ name v @ [CHR 0x22] @ r)
              \<and> CHR ''\<newline>'' \<notin> set r"
proof -
  from type_description_one_line[OF assms] obtain d where
    d: "type_description lib v = Inr d" "CHR ''\<newline>'' \<notin> set d" by blast
  then show ?thesis by (simp add: field_line_def)
qed

lemma join_head_split:
  "rest \<noteq> [] \<Longrightarrow> join sep ((a @ sep @ b) # rest) = join sep (a # b # rest)"
  by (cases rest) auto

lemma field_lines_one_line:
  assumes "\<forall>v\<in>set vars. one_line_variable lib v"
  shows "\<exists>ls. field_lines lib vars = Inr ls \<and> (\<forall>l\<in>set ls. CHR ''\<newline>'' \<notin> set l)
              \<and> concat (map (\<lambda>l. case line_field_name l of None \<Rightarrow> [] | Some n \<Rightarrow> [n]) ls)
                  = map name vars"
  using assms
proof (induction vars)
  case Nil
  then show ?case by simp
next
  case (Cons v vs)
  then obtain ls where ls: "field_lines lib vs = Inr ls" "\<forall>l\<in>set ls. CHR ''\<newline>'' \<notin> set l"
    "concat (map (\<lambda>l. case line_field_name l of None \<Rightarrow> [] | Some n \<Rightarrow> [n]) ls) = map name vs"
    by auto
  from Cons.prems have v: "one_line_variable lib v" by simp
  then have n: "CHR ''\<newline>'' \<notin> set (name v)" "CHR 0x22 \<notin> set (name v)"
    by (simp_all add: one_line_variable_def)
  from field_line_one_line[OF v] obtain r where
    r: "field_line lib v = Inr (''  '' @ [CHR 0x22] @ name v @ [CHR 0x22] @ r)"
       "CHR ''\<newline>'' \<notin> set r" by blast
  let ?l = "''  '' @ [CHR 0x22] @ name v @ [CHR 0x22] @ r"
  have 1: "field_lines lib (v # vs) = Inr (?l # ls)" using r(1) ls(1) by simp
  have 2: "CHR ''\<newline>'' \<notin> set ?l" using n(1) r(2) by simp
  have 3: "line_field_name ?l = Some (name v)" using n(2) by (rule line_field_name_field)
  show ?case
    apply (rule exI[of _ "?l # ls"])
    using 1 2 3 ls(2,3) by simp
qed

text \<open>
  C8, as the code has it. A schema renders into the fixed header, one line per variable in the declared
  order, and the closing brace, and the field names read back from the rendering are the
  names of \<open>get_variable_names\<close> in the same order, when no name, type, allowed value or
  bound brings a line break into its line and no name holds a double quote. The loader
  does not ask for that: see the schema with a line break in a name below.
\<close>

theorem format_schema_round_trip:
  assumes "\<forall>v\<in>set vars. one_line_variable lib v"
  shows "\<exists>rendered ls. format_schema_for_prompt lib vars = Inr rendered
           \<and> list_all2 (\<lambda>v l. field_line lib v = Inr l) vars ls
           \<and> split_on CHR ''\<newline>'' rendered = [''Esquema JSON requerido:'', ''{''] @ ls @ [''}'']
           \<and> extract_field_names rendered = get_variable_names vars"
proof -
  from field_lines_one_line[OF assms] obtain ls where
    ls: "field_lines lib vars = Inr ls" "\<forall>l\<in>set ls. CHR ''\<newline>'' \<notin> set l"
    "concat (map (\<lambda>l. case line_field_name l of None \<Rightarrow> [] | Some n \<Rightarrow> [n]) ls) = map name vars"
    by blast
  let ?rendered = "join ''\<newline>'' ([''Esquema JSON requerido:\<newline>{''] @ ls @ [''}''])"
  let ?all = "[''Esquema JSON requerido:'', ''{''] @ ls @ [''}'']"
  have f: "format_schema_for_prompt lib vars = Inr ?rendered"
    using ls(1) by (simp add: format_schema_for_prompt_def)
  have "?rendered = join ''\<newline>'' ((''Esquema JSON requerido:'' @ ''\<newline>'' @ ''{'') # (ls @ [''}'']))"
    by simp
  also have "\<dots> = join ''\<newline>'' (''Esquema JSON requerido:'' # ''{'' # (ls @ [''}'']))"
    by (rule join_head_split) simp
  finally have j: "?rendered = join [CHR ''\<newline>''] ?all" by simp
  have "\<forall>l\<in>set ?all. CHR ''\<newline>'' \<notin> set l" using ls(2) by simp
  then have s: "split_on CHR ''\<newline>'' ?rendered = ?all"
    unfolding j by (intro split_on_join) simp_all
  have h: "line_field_name ''Esquema JSON requerido:'' = None" "line_field_name ''{'' = None"
    "line_field_name ''}'' = None"
    by (simp_all add: line_field_name_def startswith_def)
  have e: "extract_field_names ?rendered = get_variable_names vars"
    unfolding extract_field_names_def s get_variable_names_def using ls(3) h by simp
  have a: "list_all2 (\<lambda>v l. field_line lib v = Inr l) vars ls"
    using ls(1) by (simp add: field_lines_all2)
  from f a s e show ?thesis by blast
qed

lemma one_line_three_vars: "\<forall>v\<in>set three_vars. one_line_variable lib0 v"
  by code_simp

theorem format_schema_round_trip_witness:
  "\<exists>rendered ls. format_schema_for_prompt lib0 three_vars = Inr rendered
      \<and> list_all2 (\<lambda>v l. field_line lib0 v = Inr l) three_vars ls
      \<and> split_on CHR ''\<newline>'' rendered = [''Esquema JSON requerido:'', ''{''] @ ls @ [''}'']
      \<and> extract_field_names rendered = [''nombre'', ''edad'', ''nivel'']"
proof -
  have n: "get_variable_names three_vars = [''nombre'', ''edad'', ''nivel'']" by code_simp
  show ?thesis
    using format_schema_round_trip[of three_vars lib0] one_line_three_vars unfolding n by simp
qed

text \<open>
  The claim as stated fails: the schema \<open>yaml_two_line_name\<close> loads; its one
  variable, named by two lines, renders into two lines between the header and the brace,
  and the name read back is its first line.
\<close>

theorem format_schema_two_line_name_counterexample:
  "load_yaml_schema lib0 yaml_two_line_name = Inr schema_two_line_name
   \<and> schema_variables schema_two_line_name = Some two_line_vars
   \<and> get_variable_names two_line_vars = [''a\<newline>b'']
   \<and> format_schema_for_prompt lib0 two_line_vars
       = Inr (''Esquema JSON requerido:\<newline>{\<newline>  '' @ [CHR 0x22] @ ''a\<newline>b'' @ [CHR 0x22]
              @ '': '' @ [CHR 0x22] @ ''string'' @ [CHR 0x22]
              @ '' [opcional, puede ser null]\<newline>}'')
   \<and> (case format_schema_for_prompt lib0 two_line_vars of
         Inl e \<Rightarrow> False
       | Inr rendered \<Rightarrow>
           length (split_on CHR ''\<newline>'' rendered) = 5
           \<and> extract_field_names rendered = [''a'']
           \<and> extract_field_names rendered \<noteq> get_variable_names two_line_vars)"
  by code_simp

section \<open>The batch\<close>

text \<open>
  Every exception that can end the \<open>try\<close> block of \<open>process_single_cv\<close> has a
  message: the ones the program raises itself carry a fixed text, and what a collaborator
  raises is raised again behind a prefix that names the step. This holds for the client of
  either class.
\<close>

lemma collect_results_returned:
  "collect_results (map (\<lambda>fi. (fi, Inr (f fi))) files) results = results @ map f files"
  by (induction files arbitrary: results) auto

lemma download_file_error:
  "download_file file_id service = Inl e \<Longrightarrow> exn_str e \<noteq> []"
  by (auto simp: download_file_def split: sum.splits)

lemma get_content_error:
  "get_content sv fi drive r = (Inl e, r') \<Longrightarrow> exn_str e \<noteq> []"
  by (auto simp: get_content_def dest: download_file_error split: if_splits option.splits sum.splits)

lemma parse_pdf_traditional_error:
  "parse_pdf_traditional sv content use_ocr = Inl e \<Longrightarrow> exn_str e \<noteq> []"
  by (auto simp: parse_pdf_traditional_def Let_def split: if_splits sum.splits)

lemma parse_docx_traditional_error:
  "parse_docx_traditional sv content use_ocr = Inl e \<Longrightarrow> exn_str e \<noteq> []"
  by (auto simp: parse_docx_traditional_def split: if_splits sum.splits)

lemma parse_file_error:
  "parse_file sv content mime_type use_ocr = Inl e \<Longrightarrow> exn_str e \<noteq> []"
  by (auto simp: parse_file_def parse_pdf_def parse_docx_def
           dest: parse_pdf_traditional_error parse_docx_traditional_error
           split: if_splits option.splits)

lemma cv_text_error:
  "cv_text sv fi use_ocr content = Inl e \<Longrightarrow> exn_str e \<noteq> []"
  by (auto simp: cv_text_def Let_def dest: parse_file_error split: if_splits option.splits sum.splits)

lemma retry_with_correction_error:
  "fst (retry_with_correction c lib api cdc cp vars n cvtext pc calls) = Inl e \<Longrightarrow> exn_str e \<noteq> []"
  by (auto simp: retry_with_correction_def Let_def split: sum.splits)

lemma extract_profile_attempt_error:
  "fst (extract_profile_attempt c lib api cdc cvtext vars pc n calls) = Inl e \<Longrightarrow> exn_str e \<noteq> []"
  by (auto simp: extract_profile_attempt_def Let_def
           dest: retry_with_correction_error split: sum.splits if_splits)

lemma retrying_error:
  assumes "\<And>calls e. fst (f calls) = Inl e \<Longrightarrow> exn_str e \<noteq> []"
    and "fst (retrying n f calls) = Inl e"
  shows "exn_str e \<noteq> []"
  using assms(2)
proof (induction n arbitrary: calls)
  case 0
  then show ?case using assms(1) by simp
next
  case (Suc n)
  then show ?case by (cases "f calls") (auto split: sum.splits)
qed

lemma extract_profile_error:
  "fst (extract_profile c lib api cdc cvtext vars pc n calls) = Inl e \<Longrightarrow> exn_str e \<noteq> []"
  unfolding extract_profile_def by (rule retrying_error[OF extract_profile_attempt_error])

lemma litellm_retry_with_correction_error:
  "fst (litellm_retry_with_correction c lib api cdc cp vars n cvtext pc calls) = Inl e
     \<Longrightarrow> exn_str e \<noteq> []"
  by (auto simp: litellm_retry_with_correction_def Let_def split: sum.splits)

lemma litellm_extract_profile_attempt_error:
  "fst (litellm_extract_profile_attempt c lib api cdc cvtext vars pc n calls) = Inl e
     \<Longrightarrow> exn_str e \<noteq> []"
  by (auto simp: litellm_extract_profile_attempt_def Let_def
           dest: litellm_retry_with_correction_error split: sum.splits if_splits)

lemma litellm_extract_profile_error:
  "fst (litellm_extract_profile c lib api cdc cvtext vars pc n calls) = Inl e
     \<Longrightarrow> exn_str e \<noteq> []"
  unfolding litellm_extract_profile_def
  by (rule retrying_error[OF litellm_extract_profile_attempt_error])

lemma client_extract_profile_error:
  "client_extract_profile client lib api cdc cvtext vars pc = Inl e \<Longrightarrow> exn_str e \<noteq> []"
  by (cases client)
     (auto simp: client_extract_profile_def dest: extract_profile_error litellm_extract_profile_error)

lemma to_bool_error: "to_bool lib v = Inl e \<Longrightarrow> exn_str e \<noteq> []"
  by (cases v) (auto split: if_splits)

lemma experience_signal_error: "experience_signal lib r = Inl e \<Longrightarrow> exn_str e \<noteq> []"
  by (auto simp: experience_signal_def dest: to_bool_error split: option.splits)

lemma calculate_derived_fields_error:
  "calculate_derived_fields lib r = Inl e \<Longrightarrow> exn_str e \<noteq> []"
  by (auto simp: calculate_derived_fields_def dest: to_bool_error experience_signal_error
           split: sum.splits)

lemma try_block_cases:
  "(\<exists>e r. try_block sv lib client api cdc fi vars pc drive use_ocr = (Some e, r) \<and> exn_str e \<noteq> [])
   \<or> (\<exists>content r0 cvtext data r.
         try_block sv lib client api cdc fi vars pc drive use_ocr = (None, r)
         \<and> get_content sv fi drive (initial_result fi) = (Inr content, r0)
         \<and> cv_text sv fi use_ocr content = Inr cvtext
         \<and> client_extract_profile client lib api cdc cvtext vars pc = Inr data
         \<and> calculate_derived_fields lib (dict_update r0 data) = Inr r)"
proof (cases "get_content sv fi drive (initial_result fi)")
  case (Pair got r0)
  show ?thesis
  proof (cases got)
    case (Inl e)
    then show ?thesis using Pair get_content_error[of sv fi drive "initial_result fi" e r0]
      by (simp add: try_block_def)
  next
    case content: (Inr content)
    show ?thesis
    proof (cases "cv_text sv fi use_ocr content")
      case (Inl e)
      then show ?thesis using Pair content cv_text_error[of sv fi use_ocr content e]
        by (simp add: try_block_def)
    next
      case cvtext: (Inr cvtext)
      show ?thesis
      proof (cases "client_extract_profile client lib api cdc cvtext vars pc")
        case (Inl e)
        then show ?thesis
          using Pair content cvtext client_extract_profile_error[of client lib api cdc cvtext vars pc e]
          by (simp add: try_block_def)
      next
        case data: (Inr data)
        show ?thesis
        proof (cases "calculate_derived_fields lib (dict_update r0 data)")
          case (Inl e)
          then show ?thesis
            using Pair content cvtext data calculate_derived_fields_error[of lib "dict_update r0 data" e]
            by (simp add: try_block_def)
        next
          case (Inr r)
          then show ?thesis using Pair content cvtext data by (simp add: try_block_def)
        qed
      qed
    qed
  qed
qed

lemma map_of_update_same: "map_of (AList.update k v al) k = Some v"
  by (simp add: AList.update_conv')

lemma process_single_cv_cases:
  "(\<exists>e r. try_block sv lib client api cdc fi vars pc drive use_ocr = (Some e, r)
           \<and> exn_str e \<noteq> []
           \<and> process_single_cv sv lib client api cdc fi vars pc drive use_ocr
               = AList.update ''error'' (VStr (exn_str e)) r
           \<and> map_of (process_single_cv sv lib client api cdc fi vars pc drive use_ocr) ''error''
               = Some (VStr (exn_str e)))
   \<or> (\<exists>content r0 cvtext data.
           get_content sv fi drive (initial_result fi) = (Inr content, r0)
           \<and> cv_text sv fi use_ocr content = Inr cvtext
           \<and> client_extract_profile client lib api cdc cvtext vars pc = Inr data
           \<and> calculate_derived_fields lib (dict_update r0 data)
               = Inr (process_single_cv sv lib client api cdc fi vars pc drive use_ocr))"
proof -
  let ?single = "process_single_cv sv lib client api cdc fi vars pc drive use_ocr"
  let ?tb = "try_block sv lib client api cdc fi vars pc drive use_ocr"
  from try_block_cases[of sv lib client api cdc fi vars pc drive use_ocr]
  consider (raised) e r where "?tb = (Some e, r)" "exn_str e \<noteq> []"
    | (returned) content r0 cvtext data r where "?tb = (None, r)"
        "get_content sv fi drive (initial_result fi) = (Inr content, r0)"
        "cv_text sv fi use_ocr content = Inr cvtext"
        "client_extract_profile client lib api cdc cvtext vars pc = Inr data"
        "calculate_derived_fields lib (dict_update r0 data) = Inr r"
    by blast
  then show ?thesis
  proof cases
    case raised
    then have "?single = AList.update ''error'' (VStr (exn_str e)) r"
      by (simp add: process_single_cv_def)
    then show ?thesis using raised by (auto simp: map_of_update_same)
  next
    case returned
    then have "?single = r" by (simp add: process_single_cv_def)
    then show ?thesis using returned by blast
  qed
qed

lemma mset_remove_nth:
  "i < length xs \<Longrightarrow> add_mset (xs ! i) (mset (take i xs @ drop (Suc i) xs)) = mset xs"
proof -
  assume "i < length xs"
  then have "xs = take i xs @ xs ! i # drop (Suc i) xs"
    by (rule id_take_nth_drop)
  then have "mset xs = mset (take i xs @ xs ! i # drop (Suc i) xs)"
    by simp
  then show ?thesis by simp
qed

lemma completion_order_mset:
  "length pending = n \<Longrightarrow> mset (completion_order pick n pending) = mset pending"
proof (induction n arbitrary: pending)
  case 0
  then show ?case by simp
next
  case (Suc n)
  then have ne: "pending \<noteq> []" by auto
  let ?i = "pick pending mod length pending"
  have i: "?i < length pending" using ne by simp
  then have "length (take ?i pending @ drop (Suc ?i) pending) = n"
    using Suc.prems by simp
  then have "mset (completion_order pick n (take ?i pending @ drop (Suc ?i) pending))
               = mset (take ?i pending @ drop (Suc ?i) pending)"
    by (rule Suc.IH)
  then show ?case using ne mset_remove_nth[OF i] by (simp add: Let_def)
qed

lemma as_completed_mset: "mset (as_completed pick tasks) = mset tasks"
  unfolding as_completed_def by (rule completion_order_mset) simp

lemma process_all_cvs_processed:
  assumes "schema = Some vars" and "create_llm_client pf llm_config options = Inr client"
    and "batch_drive_service pf ss (selected_files files options) = Inr drive"
    and "0 < opt_max_workers options"
  shows "process_all_cvs pf sv lib api cdc ss files schema llm_config options pc
           = Inr (Processed
               (map (\<lambda>fi. process_single_cv sv lib client api cdc fi vars pc drive
                            (opt_use_ocr options))
                  (as_completed (next_completed pf) (selected_files files options))))"
  using assms by (simp add: process_all_cvs_def collect_results_returned)

lemma process_all_cvs_not_processed:
  assumes "\<forall>results. process_all_cvs pf sv lib api cdc ss files schema llm_config options pc
             \<noteq> Inr (Processed results)"
  shows "schema = None \<or> (\<exists>e. create_llm_client pf llm_config options = Inl e)
         \<or> (\<exists>early. batch_drive_service pf ss (selected_files files options) = Inl early)
         \<or> opt_max_workers options = 0"
proof (rule ccontr)
  assume n: "\<not> ?thesis"
  then obtain vars where 1: "schema = Some vars" by auto
  from n obtain client where 2: "create_llm_client pf llm_config options = Inr client"
    by (cases "create_llm_client pf llm_config options") auto
  from n obtain drive where
    3: "batch_drive_service pf ss (selected_files files options) = Inr drive"
    by (cases "batch_drive_service pf ss (selected_files files options)") auto
  from n have 4: "0 < opt_max_workers options" by simp
  show False using process_all_cvs_processed[OF 1 2 3 4] assms by blast
qed

text \<open>
  C5. The batch is the list of the selected files, cut to the limit of the options. When
  the schema is valid, the client is built, the Drive service is there if a selected file
  needs it and the pool has a worker, \<open>process_all_cvs\<close> ends with one record per file
  of the batch, in the order of completion, each the record \<open>process_single_cv\<close>
  returns for that file alone: whatever happens to one document, the others have their
  records. When it ends without results, the cause is one of those four, none of them a
  document. The record of a document is either the record at the moment an exception ended
  the \<open>try\<close> block, with the message of the exception, which is never empty, in its
  field \<open>error\<close>; or the derived-fields record of the initial record updated with the
  data extracted from the text of the document. A failing model call is the first case.
\<close>

theorem process_all_cvs_isolation:
  "(schema = Some vars \<and> create_llm_client pf llm_config options = Inr client
      \<and> batch_drive_service pf ss (selected_files files options) = Inr drive
      \<and> 0 < opt_max_workers options \<longrightarrow>
      (\<exists>results.
         process_all_cvs pf sv lib api cdc ss files schema llm_config options pc
           = Inr (Processed results)
         \<and> results
             = map (\<lambda>fi. process_single_cv sv lib client api cdc fi vars pc drive
                          (opt_use_ocr options))
                 (as_completed (next_completed pf) (selected_files files options))
         \<and> mset results
             = mset (map (\<lambda>fi. process_single_cv sv lib client api cdc fi vars pc drive
                                (opt_use_ocr options))
                       (selected_files files options))))
   \<and> ((\<forall>results. process_all_cvs pf sv lib api cdc ss files schema llm_config options pc
                     \<noteq> Inr (Processed results)) \<longrightarrow>
        schema = None \<or> (\<exists>e. create_llm_client pf llm_config options = Inl e)
        \<or> (\<exists>early. batch_drive_service pf ss (selected_files files options) = Inl early)
        \<or> opt_max_workers options = 0)
   \<and> ((\<exists>e r. try_block sv lib client api cdc fi vars pc drive use_ocr = (Some e, r)
              \<and> exn_str e \<noteq> []
              \<and> process_single_cv sv lib client api cdc fi vars pc drive use_ocr
                  = AList.update ''error'' (VStr (exn_str e)) r
              \<and> map_of (process_single_cv sv lib client api cdc fi vars pc drive use_ocr) ''error''
                  = Some (VStr (exn_str e)))
        \<or> (\<exists>content r0 cvtext data.
              get_content sv fi drive (initial_result fi) = (Inr content, r0)
              \<and> cv_text sv fi use_ocr content = Inr cvtext
              \<and> client_extract_profile client lib api cdc cvtext vars pc = Inr data
              \<and> calculate_derived_fields lib (dict_update r0 data)
                  = Inr (process_single_cv sv lib client api cdc fi vars pc drive use_ocr)))"
proof (intro conjI impI)
  let ?single = "\<lambda>fi. process_single_cv sv lib client api cdc fi vars pc drive (opt_use_ocr options)"
  let ?selected = "selected_files files options"
  assume a: "schema = Some vars \<and> create_llm_client pf llm_config options = Inr client
      \<and> batch_drive_service pf ss (selected_files files options) = Inr drive
      \<and> 0 < opt_max_workers options"
  then have p: "process_all_cvs pf sv lib api cdc ss files schema llm_config options pc
           = Inr (Processed (map ?single (as_completed (next_completed pf) ?selected)))"
    using process_all_cvs_processed by blast
  have "mset (map ?single (as_completed (next_completed pf) ?selected)) = mset (map ?single ?selected)"
    using as_completed_mset[of "next_completed pf" ?selected] by (metis mset_map)
  with p show "\<exists>results.
         process_all_cvs pf sv lib api cdc ss files schema llm_config options pc
           = Inr (Processed results)
         \<and> results = map ?single (as_completed (next_completed pf) ?selected)
         \<and> mset results = mset (map ?single ?selected)"
    by blast
next
  assume "\<forall>results. process_all_cvs pf sv lib api cdc ss files schema llm_config options pc
                     \<noteq> Inr (Processed results)"
  then show "schema = None \<or> (\<exists>e. create_llm_client pf llm_config options = Inl e)
        \<or> (\<exists>early. batch_drive_service pf ss (selected_files files options) = Inl early)
        \<or> opt_max_workers options = 0"
    by (rule process_all_cvs_not_processed)
next
  show "(\<exists>e r. try_block sv lib client api cdc fi vars pc drive use_ocr = (Some e, r)
              \<and> exn_str e \<noteq> []
              \<and> process_single_cv sv lib client api cdc fi vars pc drive use_ocr
                  = AList.update ''error'' (VStr (exn_str e)) r
              \<and> map_of (process_single_cv sv lib client api cdc fi vars pc drive use_ocr) ''error''
                  = Some (VStr (exn_str e)))
        \<or> (\<exists>content r0 cvtext data.
              get_content sv fi drive (initial_result fi) = (Inr content, r0)
              \<and> cv_text sv fi use_ocr content = Inr cvtext
              \<and> client_extract_profile client lib api cdc cvtext vars pc = Inr data
              \<and> calculate_derived_fields lib (dict_update r0 data)
                  = Inr (process_single_cv sv lib client api cdc fi vars pc drive use_ocr))"
    by (rule process_single_cv_cases)
qed

text \<open>
  Five uploads, one of them not selected, under a limit of three files: the batch is the
  first three selected files. The model call for the second raises. The three records
  come in the order of completion: the second file's with the message of the failure, the
  other two with the extracted name and an empty \<open>error\<close>.
\<close>

lemma batch_examples:
  "create_llm_client platform0 llm_config0 options0 = Inr (OpenAIClient client0)"
  "selected_files batch_files options0 = batch_of_three"
  "0 < opt_max_workers options0"
  "opt_use_ocr options0 = False"
  "as_completed (next_completed platform0) batch_of_three
     = [local_pdf ''cv_2.pdf'' ''cv dos'', local_pdf ''cv_3.pdf'' ''cv tres'',
        local_pdf ''cv_1.pdf'' ''cv uno'']"
  by code_simp+

lemma batch_of_three_local:
  "batch_drive_service platform0 session0 batch_of_three = Inr None"
  by (simp add: batch_drive_service_def batch_of_three_def local_pdf_def)

lemma batch_of_three_results:
  "map (\<lambda>fi. process_single_cv services0 lib0 (OpenAIClient client0)
                (provider_fails_on ''cv dos'') plain_prompt fi
                [mk_var ''nombre'' ''string'' True] plain_prompt None False)
     [local_pdf ''cv_2.pdf'' ''cv dos'', local_pdf ''cv_3.pdf'' ''cv tres'',
      local_pdf ''cv_1.pdf'' ''cv uno'']
   = batch_results"
  by code_simp

theorem process_all_cvs_isolation_witness:
  "process_all_cvs platform0 services0 lib0 (provider_fails_on ''cv dos'') plain_prompt session0
     batch_files (Some [mk_var ''nombre'' ''string'' True]) llm_config0 options0 plain_prompt
     = Inr (Processed batch_results)
   \<and> selected_files batch_files options0 = batch_of_three
   \<and> map (\<lambda>r. map_of r ''error'') batch_results
       = [Some (VStr ''Error llamando a OpenAI API: ProviderError: servicio no disponible''),
          Some (VStr []), Some (VStr [])]"
proof -
  have errors: "map (\<lambda>r. map_of r ''error'') batch_results
       = [Some (VStr ''Error llamando a OpenAI API: ProviderError: servicio no disponible''),
          Some (VStr []), Some (VStr [])]"
    by code_simp
  show ?thesis
    using process_all_cvs_isolation[of "Some [mk_var ''nombre'' ''string'' True]"
            "[mk_var ''nombre'' ''string'' True]" platform0 llm_config0 options0
            "OpenAIClient client0" session0 batch_files None services0 lib0
            "provider_fails_on ''cv dos''" plain_prompt plain_prompt
            "local_pdf ''cv_2.pdf'' ''cv dos''" False]
          batch_examples batch_of_three_local batch_of_three_results errors
    by simp
qed

end
